theory Spec2Isabelle
  imports Main "HOL-Library.Sublist"
begin

section \<open>Values and strings of the host language\<close>

text \<open>
  The values the tool code handles as \<^verbatim>\<open>unknown\<close> are the values a YAML or JSON
  document can hold. A number is given by the text that \<^verbatim>\<open>String\<close> renders for it
  (\<^verbatim>\<open>7\<close>, \<^verbatim>\<open>1.5\<close>, \<^verbatim>\<open>1e+21\<close>); the code never calculates with these numbers. An
  object is the list of its own enumerable properties in insertion order, and its
  prototype is \<^verbatim>\<open>Object.prototype\<close>; an array has \<^verbatim>\<open>Array.prototype\<close>.
\<close>

datatype jsvalue =
    JNull
  | JBool bool
  | JNum string
  | JStr string
  | JArr "jsvalue list"
  | JObj "(string \<times> jsvalue) list"

text \<open>\<^verbatim>\<open>Array.prototype.join\<close> on strings.\<close>

fun join :: "string \<Rightarrow> string list \<Rightarrow> string" where
  "join sep [] = []"
| "join sep [x] = x"
| "join sep (x # y # ys) = x @ sep @ join sep (y # ys)"

text \<open>Decimal rendering of an integer, as \<^verbatim>\<open>String(n)\<close> gives it for an integer of at most 21 digits.\<close>

fun show_nat :: "nat \<Rightarrow> string" where
  "show_nat n =
     (if n < 10 then [''0123456789'' ! n]
      else show_nat (n div 10) @ [''0123456789'' ! (n mod 10)])"

declare show_nat.simps [simp del]

definition show_int :: "int \<Rightarrow> string" where
  "show_int i = (if i < 0 then CHR ''-'' # show_nat (nat (- i)) else show_nat (nat i))"

text \<open>
  \<^verbatim>\<open>String(value)\<close>; \<open>Inl\<close> is the message of the TypeError it throws. A string is
  itself. An array joins the texts of its elements with commas, a null element giving
  the empty text. An object is converted through its \<^verbatim>\<open>toString\<close>: without an own
  property of that name this is the inherited method, which gives
  \<^verbatim>\<open>[object Object]\<close>; an own property of that name holds data, which cannot be called,
  and since \<^verbatim>\<open>valueOf\<close> then gives no primitive either, the conversion throws.
\<close>

definition cannot_convert :: string where
  "cannot_convert = ''Cannot convert object to primitive value''"

fun js_String :: "jsvalue \<Rightarrow> string + string"
  and js_String_elems :: "jsvalue list \<Rightarrow> string + string list" where
  "js_String JNull = Inr ''null''"
| "js_String (JBool b) = Inr (if b then ''true'' else ''false'')"
| "js_String (JNum t) = Inr t"
| "js_String (JStr s) = Inr s"
| "js_String (JArr xs) =
     (case js_String_elems xs of Inl e \<Rightarrow> Inl e | Inr ts \<Rightarrow> Inr (join '','' ts))"
| "js_String (JObj kvs) =
     (if map_of kvs ''toString'' = None then Inr ''[object Object]'' else Inl cannot_convert)"
| "js_String_elems [] = Inr []"
| "js_String_elems (x # xs) =
     (case (if x = JNull then Inr [] else js_String x) of
        Inl e \<Rightarrow> Inl e
      | Inr t \<Rightarrow> (case js_String_elems xs of Inl e \<Rightarrow> Inl e | Inr ts \<Rightarrow> Inr (t # ts)))"

text \<open>\<^verbatim>\<open>Object.entries\<close>: the own enumerable properties; an array has its indices.\<close>

definition object_entries :: "jsvalue \<Rightarrow> (string \<times> jsvalue) list" where
  "object_entries v =
     (case v of
        JObj kvs \<Rightarrow> kvs
      | JArr xs \<Rightarrow> zip (map show_nat [0 ..< length xs]) xs
      | _ \<Rightarrow> [])"

text \<open>\<^verbatim>\<open>typeof v === "object" && v !== null\<close>.\<close>

definition is_object :: "jsvalue \<Rightarrow> bool" where
  "is_object v = (case v of JObj kvs \<Rightarrow> True | JArr xs \<Rightarrow> True | _ \<Rightarrow> False)"

text \<open>
  The own property \<open>k\<close> of an object value; an array also owns \<^verbatim>\<open>length\<close>. This is what
  reading \<^verbatim>\<open>v[k]\<close> gives for a name that the built-in prototypes do not have.
\<close>

definition get_prop :: "jsvalue \<Rightarrow> string \<Rightarrow> jsvalue option" where
  "get_prop v k =
     (case v of
        JObj kvs \<Rightarrow> map_of kvs k
      | JArr xs \<Rightarrow>
          (if k = ''length'' then Some (JNum (show_nat (length xs)))
           else map_of (object_entries (JArr xs)) k)
      | _ \<Rightarrow> None)"

text \<open>
  Adding or overwriting a property in a list of own properties: what the assignment
  \<^verbatim>\<open>obj[k] = v\<close> does on an ordinary object for every name but \<^verbatim>\<open>__proto__\<close>.
\<close>

fun set_prop :: "('k \<times> 'v) list \<Rightarrow> 'k \<Rightarrow> 'v \<Rightarrow> ('k \<times> 'v) list" where
  "set_prop [] k v = [(k, v)]"
| "set_prop ((k', v') # kvs) k v =
     (if k' = k then (k, v) # kvs else (k', v') # set_prop kvs k v)"

text \<open>\<^verbatim>\<open>String.prototype.includes\<close>.\<close>

fun includes_str :: "string \<Rightarrow> string \<Rightarrow> bool" where
  "includes_str [] sub = (sub = [])"
| "includes_str (c # cs) sub = (prefix sub (c # cs) \<or> includes_str cs sub)"

text \<open>Consuming a literal at the head of a string.\<close>

fun strip_prefix :: "string \<Rightarrow> string \<Rightarrow> string option" where
  "strip_prefix [] s = Some s"
| "strip_prefix (p # ps) [] = None"
| "strip_prefix (p # ps) (c # cs) = (if p = c then strip_prefix ps cs else None)"

subsection \<open>Property lookup\<close>

text \<open>
  Reading \<^verbatim>\<open>obj[key]\<close> finds an own property first and then walks the prototype chain.
  What the chain holds belongs to the runtime: a member found there is a built-in
  function or a prototype object. The code does nothing with such a member but test it
  and convert it to a string, so a member is given by the outcome of \<^verbatim>\<open>String\<close> on it;
  it is an object, hence neither undefined nor null, and truthy.
\<close>

type_synonym member = "string + string"

text \<open>
  An own property may be absent, may hold \<^verbatim>\<open>undefined\<close>, or may hold a value. An object
  used as a dictionary is its own properties and the members it inherits.
\<close>

datatype 'v slot = Absent | Undef | Holds 'v

record 'v jsdict =
  dict_own :: "string \<Rightarrow> 'v slot"
  dict_inherited :: "string \<Rightarrow> member option"

datatype 'v looked = Undefined | Own 'v | Inherited member

definition js_get :: "'v jsdict \<Rightarrow> string \<Rightarrow> 'v looked" where
  "js_get obj key =
     (case dict_own obj key of
        Holds v \<Rightarrow> Own v
      | Undef \<Rightarrow> Undefined
      | Absent \<Rightarrow> (case dict_inherited obj key of Some m \<Rightarrow> Inherited m | None \<Rightarrow> Undefined))"

text \<open>The own properties given by a map, none of them holding \<^verbatim>\<open>undefined\<close>.\<close>

definition slots_of :: "(string \<rightharpoonup> 'v) \<Rightarrow> string \<Rightarrow> 'v slot" where
  "slots_of m key = (case m key of Some v \<Rightarrow> Holds v | None \<Rightarrow> Absent)"

section \<open>Template engine (template-engine.ts)\<close>

record TemplateContext =
  ctx_env :: "string jsdict"
  ctx_params :: "jsvalue jsdict"
  ctx_response :: "jsvalue jsdict option"

text \<open>
  \<^verbatim>\<open>TEMPLATE_PATTERN = /\{\{(env|params|response)\.([a-zA-Z_][a-zA-Z0-9_]*)\}\}/g\<close>.
  The character classes of the key:
\<close>

definition is_key_start :: "char \<Rightarrow> bool" where
  "is_key_start c \<longleftrightarrow>
     c \<in> set ''abcdefghijklmnopqrstuvwxyzABCDEFGHIJKLMNOPQRSTUVWXYZ_''"

definition is_key_char :: "char \<Rightarrow> bool" where
  "is_key_char c \<longleftrightarrow> is_key_start c \<or> c \<in> set ''0123456789''"

text \<open>The group \<^verbatim>\<open>(env|params|response)\<close>: the alternatives in order.\<close>

definition match_scope :: "string \<Rightarrow> (string \<times> string) option" where
  "match_scope s =
     (case strip_prefix ''env'' s of
        Some r \<Rightarrow> Some (''env'', r)
      | None \<Rightarrow>
          (case strip_prefix ''params'' s of
             Some r \<Rightarrow> Some (''params'', r)
           | None \<Rightarrow>
               (case strip_prefix ''response'' s of
                  Some r \<Rightarrow> Some (''response'', r)
                | None \<Rightarrow> None)))"

text \<open>
  One attempt to match the pattern at the head of \<open>s\<close>: the captured scope and key and
  the text after the match. The key is the longest run of key characters, since the
  pattern needs a closing brace right after it.
\<close>

definition match_template :: "string \<Rightarrow> (string \<times> string \<times> string) option" where
  "match_template s =
     (case strip_prefix ''{{'' s of
        None \<Rightarrow> None
      | Some s1 \<Rightarrow>
          (case match_scope s1 of
             None \<Rightarrow> None
           | Some (scope, s2) \<Rightarrow>
               (case strip_prefix ''.'' s2 of
                  None \<Rightarrow> None
                | Some s3 \<Rightarrow>
                    (case s3 of
                       [] \<Rightarrow> None
                     | c # s4 \<Rightarrow>
                         if is_key_start c then
                           (case strip_prefix ''}}'' (dropWhile is_key_char s4) of
                              None \<Rightarrow> None
                            | Some rest \<Rightarrow> Some (scope, c # takeWhile is_key_char s4, rest))
                         else None))))"

text \<open>The text of a placeholder, \<^verbatim>\<open>{{scope.key}}\<close>.\<close>

definition placeholder :: "string \<Rightarrow> string \<Rightarrow> string" where
  "placeholder scope key = ''{{'' @ scope @ ''.'' @ key @ ''}}''"

text \<open>
  The replacement callback of \<^verbatim>\<open>interpolateString\<close>. A thrown error is \<open>Inl\<close> of its
  message. For the environment scope the callback returns \<^verbatim>\<open>value ?? ""\<close> and the
  replace converts what it returns to a string; for the other scopes the callback
  converts with \<^verbatim>\<open>String(value)\<close> itself.
\<close>

definition replacer ::
  "TemplateContext \<Rightarrow> bool \<Rightarrow> string \<Rightarrow> string \<Rightarrow> string \<Rightarrow> string + string" where
  "replacer ctx strictEnv matched scope key =
     (if scope = ''env'' then
        (case js_get (ctx_env ctx) key of
           Undefined \<Rightarrow>
             if strictEnv then Inl (''Missing required environment variable: '' @ key)
             else Inr []
         | Own v \<Rightarrow> Inr v
         | Inherited m \<Rightarrow> m)
      else if scope = ''params'' then
        (case js_get (ctx_params ctx) key of
           Undefined \<Rightarrow> Inr []
         | Own v \<Rightarrow> js_String v
         | Inherited m \<Rightarrow> m)
      else if scope = ''response'' then
        (case ctx_response ctx of
           None \<Rightarrow> Inr []
         | Some r \<Rightarrow>
             (case js_get r key of
                Undefined \<Rightarrow> Inr []
              | Own v \<Rightarrow> js_String v
              | Inherited m \<Rightarrow> m))
      else Inr matched)"

text \<open>The words of the second group of the pattern, \<^verbatim>\<open>[a-zA-Z_][a-zA-Z0-9_]*\<close>.\<close>

definition valid_key :: "string \<Rightarrow> bool" where
  "valid_key k = (case k of [] \<Rightarrow> False | c # cs \<Rightarrow> is_key_start c \<and> list_all is_key_char cs)"

text \<open>The words of the first group.\<close>

definition known_scope :: "string \<Rightarrow> bool" where
  "known_scope sc \<longleftrightarrow> sc \<in> set [''env'', ''params'', ''response'']"

text \<open>
  Two outcomes in sequence: the first error, or the first output followed by the
  second.
\<close>

definition then_append :: "string + string \<Rightarrow> string + string \<Rightarrow> string + string" where
  "then_append a b =
     (case a of
        Inl e \<Rightarrow> Inl e
      | Inr x \<Rightarrow> (case b of Inl e \<Rightarrow> Inl e | Inr y \<Rightarrow> Inr (x @ y)))"

text \<open>
  The global replace: scan from the left; where the pattern matches, call the
  replacer and go on after the match, otherwise keep the character. An error of the
  replacer aborts the scan.
\<close>

function interpolate_scan :: "TemplateContext \<Rightarrow> bool \<Rightarrow> string \<Rightarrow> string + string" where
  "interpolate_scan ctx strictEnv [] = Inr []"
| "interpolate_scan ctx strictEnv (c # cs) =
     (case match_template (c # cs) of
        None \<Rightarrow>
          (case interpolate_scan ctx strictEnv cs of
             Inl e \<Rightarrow> Inl e
           | Inr out \<Rightarrow> Inr (c # out))
      | Some (scope, key, rest) \<Rightarrow>
          (case replacer ctx strictEnv (placeholder scope key) scope key of
             Inl e \<Rightarrow> Inl e
           | Inr v \<Rightarrow>
               (case interpolate_scan ctx strictEnv rest of
                  Inl e \<Rightarrow> Inl e
                | Inr out \<Rightarrow> Inr (v @ out))))"
  by pat_completeness auto
termination
proof -
  have strip: "length s = length p + length r" if "strip_prefix p s = Some r" for p s r
    using that by (induction p s rule: strip_prefix.induct) (auto split: if_splits)
  have scope: "length r < length s" if "match_scope s = Some (sc, r)" for s sc r
    using that by (auto simp: match_scope_def split: option.splits dest: strip)
  have shorter: "length rest < length s" if m: "match_template s = Some (sc, key, rest)"
    for s sc key rest
  proof -
    from m obtain s1 s2 s3 c s4 where
      a: "strip_prefix ''{{'' s = Some s1" and
      b: "match_scope s1 = Some (sc, s2)" and
      c: "strip_prefix ''.'' s2 = Some s3" and
      d: "s3 = c # s4" and
      e: "strip_prefix ''}}'' (dropWhile is_key_char s4) = Some rest"
      by (auto simp: match_template_def split: option.splits list.splits if_splits)
    have "length rest \<le> length (dropWhile is_key_char s4)"
      using strip [OF e] by simp
    also have "\<dots> \<le> length s4"
      by (rule length_dropWhile_le)
    also have "\<dots> < length s"
      using strip [OF a] scope [OF b] strip [OF c] d by simp
    finally show ?thesis .
  qed
  show ?thesis
    by (relation "measure (\<lambda>(ctx, strictEnv, s). length s)") (auto dest: shorter)
qed

definition interpolateString :: "string \<Rightarrow> TemplateContext \<Rightarrow> bool \<Rightarrow> string + string" where
  "interpolateString template ctx strictEnv = interpolate_scan ctx strictEnv template"

text \<open>
  What \<^verbatim>\<open>interpolateDeep\<close> builds. A leaf is a primitive value. An object is built by
  assigning \<^verbatim>\<open>result[k]\<close> entry by entry; the assignment to the name \<^verbatim>\<open>__proto__\<close>
  adds no property but calls the inherited setter, which replaces the prototype of
  \<^verbatim>\<open>result\<close> when the value is an object or null and does nothing otherwise. So a
  built object has a prototype besides its own properties.
\<close>

datatype built =
    BLeaf jsvalue
  | BArr "built list"
  | BObj bproto "(string \<times> built) list"
and bproto =
    ProtoDefault
  | ProtoNull
  | ProtoOf built

definition built_is_object :: "built \<Rightarrow> bool" where
  "built_is_object b = (case b of BLeaf v \<Rightarrow> is_object v | _ \<Rightarrow> True)"

text \<open>The assignment \<^verbatim>\<open>result[k] = w\<close> on the object under construction.\<close>

definition assign_built ::
  "bproto \<times> (string \<times> built) list \<Rightarrow> string \<Rightarrow> built \<Rightarrow> bproto \<times> (string \<times> built) list" where
  "assign_built result k w =
     (if k = ''__proto__'' then
        (if w = BLeaf JNull then (ProtoNull, snd result)
         else if built_is_object w then (ProtoOf w, snd result)
         else result)
      else (fst result, set_prop (snd result) k w))"

text \<open>
  \<^verbatim>\<open>interpolateDeep\<close>: every string leaf, in order; the first error aborts. The entries
  of an object have distinct names.
\<close>

fun interpolateDeep :: "jsvalue \<Rightarrow> TemplateContext \<Rightarrow> bool \<Rightarrow> string + built"
  and interpolateDeep_items :: "jsvalue list \<Rightarrow> TemplateContext \<Rightarrow> bool \<Rightarrow> string + built list"
  and interpolateDeep_entries ::
    "(string \<times> jsvalue) list \<Rightarrow> bproto \<times> (string \<times> built) list \<Rightarrow> TemplateContext \<Rightarrow> bool \<Rightarrow>
       string + bproto \<times> (string \<times> built) list"
  where
  "interpolateDeep (JStr s) ctx strictEnv =
     (case interpolateString s ctx strictEnv of
        Inl e \<Rightarrow> Inl e
      | Inr t \<Rightarrow> Inr (BLeaf (JStr t)))"
| "interpolateDeep (JArr xs) ctx strictEnv =
     (case interpolateDeep_items xs ctx strictEnv of Inl e \<Rightarrow> Inl e | Inr ys \<Rightarrow> Inr (BArr ys))"
| "interpolateDeep (JObj kvs) ctx strictEnv =
     (case interpolateDeep_entries kvs (ProtoDefault, []) ctx strictEnv of
        Inl e \<Rightarrow> Inl e
      | Inr (proto, entries) \<Rightarrow> Inr (BObj proto entries))"
| "interpolateDeep JNull ctx strictEnv = Inr (BLeaf JNull)"
| "interpolateDeep (JBool b) ctx strictEnv = Inr (BLeaf (JBool b))"
| "interpolateDeep (JNum n) ctx strictEnv = Inr (BLeaf (JNum n))"
| "interpolateDeep_items [] ctx strictEnv = Inr []"
| "interpolateDeep_items (x # xs) ctx strictEnv =
     (case interpolateDeep x ctx strictEnv of
        Inl e \<Rightarrow> Inl e
      | Inr y \<Rightarrow>
          (case interpolateDeep_items xs ctx strictEnv of
             Inl e \<Rightarrow> Inl e
           | Inr ys \<Rightarrow> Inr (y # ys)))"
| "interpolateDeep_entries [] result ctx strictEnv = Inr result"
| "interpolateDeep_entries ((k, v) # kvs) result ctx strictEnv =
     (case interpolateDeep v ctx strictEnv of
        Inl e \<Rightarrow> Inl e
      | Inr w \<Rightarrow> interpolateDeep_entries kvs (assign_built result k w) ctx strictEnv)"

section \<open>Guarded HTTP executor (executor.ts)\<close>

subsection \<open>Definitions and call parameters (types.ts)\<close>

record ApiToolParameter =
  param_type :: string
  param_description :: "string option"
  param_required :: "bool option"
  param_enum :: "string list option"
  param_default :: "jsvalue option"

record ApiToolRequestBody =
  body_type :: string
  body_content :: jsvalue

record ApiToolRequest =
  req_method :: string
  req_url :: string
  req_headers :: "(string \<times> string) list option"
  req_body :: "ApiToolRequestBody option"
  req_timeout_ms :: "int option"

record ApiToolResponse =
  resp_extract :: "string option"
  resp_summary :: "string option"
  resp_error_template :: "string option"

record ApiToolDefinition =
  def_name :: string
  def_description :: string
  def_parameters :: "(string \<times> ApiToolParameter) list option"
  def_request :: ApiToolRequest
  def_response :: "ApiToolResponse option"
  def_requires_env :: "string list option"
  def_allowed_hosts :: "string list"

record ApiToolExecuteParams =
  ep_definition :: ApiToolDefinition
  ep_args :: "jsvalue jsdict"
  ep_extraEnv :: "(string \<rightharpoonup> string) option"

record ExecuteResult =
  res_success :: bool
  res_data :: "jsvalue option"
  res_status :: "int option"
  res_error :: "string option"
  res_summary :: "string option"

subsection \<open>The platform the executor runs on\<close>

text \<open>
  What \<^verbatim>\<open>fetch\<close> is called with: the URL and the init object; \<open>fetch_timeout\<close> is the
  delay of the timer that aborts the request.
\<close>

record FetchRequest =
  fetch_url :: string
  fetch_method :: string
  fetch_headers :: "(string \<times> string) list"
  fetch_body :: "string option"
  fetch_timeout :: int

text \<open>
  What the executor reads of a \<^verbatim>\<open>Response\<close>: its status, its content-type header, and
  the outcome of reading the body as JSON or as text (\<open>Inl\<close> when the read throws).
\<close>

record HttpResponse =
  http_status :: int
  http_content_type :: "string option"
  http_json :: "string + jsvalue"
  http_text :: "string + string"

text \<open>\<^verbatim>\<open>response.ok\<close>: the status is in the range 200 to 299.\<close>

definition http_ok :: "HttpResponse \<Rightarrow> bool" where
  "http_ok r \<longleftrightarrow> 200 \<le> http_status r \<and> http_status r \<le> 299"

text \<open>
  The ambient services: the process environment, the hostname of a parsed URL
  (\<open>None\<close> when \<^verbatim>\<open>new URL\<close> throws), \<^verbatim>\<open>JSON.stringify\<close>, \<^verbatim>\<open>String\<close> on a built
  array or object (\<open>Inl\<close> when it throws), the serialisation of \<^verbatim>\<open>URLSearchParams\<close>,
  \<^verbatim>\<open>fetch\<close> (\<open>Inl\<close> when it rejects: a transport error or the abort of the timer), and
  the members that a plain object and an array inherit from the built-in prototypes.
\<close>

record platform =
  process_env :: "string \<rightharpoonup> string"
  url_hostname :: "string \<Rightarrow> string option"
  json_stringify :: "built \<Rightarrow> string"
  object_to_string :: "built \<Rightarrow> string + string"
  form_encode :: "(string \<times> string) list \<Rightarrow> string"
  fetch :: "FetchRequest \<Rightarrow> string + HttpResponse"
  object_prototype :: "string \<Rightarrow> member option"
  array_prototype :: "string \<Rightarrow> member option"

subsection \<open>Host checks\<close>

definition MAX_TIMEOUT_MS :: int where
  "MAX_TIMEOUT_MS = 60000"

definition DEFAULT_TIMEOUT_MS :: int where
  "DEFAULT_TIMEOUT_MS = 30000"

text \<open>Case folding of the \<^verbatim>\<open>i\<close> flag, on the letters the patterns name.\<close>

definition lower_char :: "char \<Rightarrow> char" where
  "lower_char c =
     (case map_of (zip ''ABCDEFGHIJKLMNOPQRSTUVWXYZ'' ''abcdefghijklmnopqrstuvwxyz'') c of
        Some l \<Rightarrow> l
      | None \<Rightarrow> c)"

text \<open>\<^verbatim>\<open>/^172\.(1[6-9]|2[0-9]|3[0-1])\./\<close>\<close>

definition match_172 :: "string \<Rightarrow> bool" where
  "match_172 h =
     (case strip_prefix ''172.'' h of
        Some (a # b # c # rest) \<Rightarrow>
          ((a = CHR ''1'' \<and> b \<in> set ''6789'')
           \<or> (a = CHR ''2'' \<and> b \<in> set ''0123456789'')
           \<or> (a = CHR ''3'' \<and> b \<in> set ''01''))
          \<and> c = CHR ''.''
      | _ \<Rightarrow> False)"

definition PRIVATE_IP_PATTERNS :: "(string \<Rightarrow> bool) list" where
  "PRIVATE_IP_PATTERNS =
     [\<lambda>h. map lower_char h = ''localhost'',
      prefix ''127.'',
      prefix ''10.'',
      match_172,
      prefix ''192.168.'',
      prefix ''169.254.'',
      \<lambda>h. suffix ''.local'' (map lower_char h),
      \<lambda>h. suffix ''.internal'' (map lower_char h)]"

definition BLOCKED_HOSTS :: "string list" where
  "BLOCKED_HOSTS = [''169.254.169.254'']"

definition isPrivateHost :: "string \<Rightarrow> bool" where
  "isPrivateHost hostname \<longleftrightarrow>
     (if hostname \<in> set BLOCKED_HOSTS then True
      else list_ex (\<lambda>pattern. pattern hostname) PRIVATE_IP_PATTERNS)"

text \<open>The test of one allow-list entry, the callback of \<^verbatim>\<open>allowedHosts.some\<close>.\<close>

definition host_matches :: "string \<Rightarrow> string \<Rightarrow> bool" where
  "host_matches hostname allowed \<longleftrightarrow>
     (if prefix ''*.'' allowed then
        (let sfx = drop 1 allowed in suffix sfx hostname \<or> hostname = drop 2 allowed)
      else hostname = allowed)"

definition isAllowedHost :: "string \<Rightarrow> string list \<Rightarrow> bool" where
  "isAllowedHost hostname allowedHosts \<longleftrightarrow> list_ex (host_matches hostname) allowedHosts"

definition private_host_message :: "string \<Rightarrow> string" where
  "private_host_message hostname =
     ''Blocked: requests to private/internal hosts not allowed ('' @ hostname @ '')''"

definition not_allowed_message :: "string \<Rightarrow> string list \<Rightarrow> string" where
  "not_allowed_message hostname allowedHosts =
     ''Blocked: host '' @ [CHR 0x27] @ hostname @ [CHR 0x27] @ '' not in allowed_hosts [''
       @ join '', '' allowedHosts @ '']''"

definition validateUrl :: "platform \<Rightarrow> string \<Rightarrow> string list \<Rightarrow> string + unit" where
  "validateUrl pf u allowedHosts =
     (case url_hostname pf u of
        None \<Rightarrow> Inl (''Invalid URL: '' @ u)
      | Some hostname \<Rightarrow>
          if isPrivateHost hostname then Inl (private_host_message hostname)
          else if \<not> isAllowedHost hostname allowedHosts then
            Inl (not_allowed_message hostname allowedHosts)
          else Inr ())"

subsection \<open>Required environment\<close>

text \<open>\<^verbatim>\<open>{ ...process.env, ...env }\<close>\<close>

definition merged_env :: "platform \<Rightarrow> (string \<rightharpoonup> string) option \<Rightarrow> (string \<rightharpoonup> string)" where
  "merged_env pf extra = (case extra of None \<Rightarrow> process_env pf | Some e \<Rightarrow> process_env pf ++ e)"

text \<open>The merged object: a plain object with the merged variables as own properties.\<close>

definition merged_dict :: "platform \<Rightarrow> (string \<rightharpoonup> string) option \<Rightarrow> string jsdict" where
  "merged_dict pf extra =
     \<lparr>dict_own = slots_of (merged_env pf extra), dict_inherited = object_prototype pf\<rparr>"

text \<open>
  \<^verbatim>\<open>!merged[key]\<close>: the lookup gives undefined or the empty string. An inherited member
  is truthy.
\<close>

definition falsy_env :: "string looked \<Rightarrow> bool" where
  "falsy_env v \<longleftrightarrow> (case v of Undefined \<Rightarrow> True | Own s \<Rightarrow> s = [] | Inherited m \<Rightarrow> False)"

text \<open>\<^verbatim>\<open>!headers[name]\<close> for a name that no prototype has.\<close>

definition falsy_str :: "string option \<Rightarrow> bool" where
  "falsy_str v \<longleftrightarrow> (case v of None \<Rightarrow> True | Some s \<Rightarrow> s = [])"

definition missing_env :: "platform \<Rightarrow> string list \<Rightarrow> (string \<rightharpoonup> string) option \<Rightarrow> string list" where
  "missing_env pf reqs extra =
     filter (\<lambda>key. falsy_env (js_get (merged_dict pf extra) key)) reqs"

definition missing_env_message :: "string list \<Rightarrow> string" where
  "missing_env_message missing =
     ''Missing required environment variables: '' @ join '', '' missing"

definition checkRequiredEnvVars ::
  "platform \<Rightarrow> string list option \<Rightarrow> (string \<rightharpoonup> string) option \<Rightarrow> string + unit" where
  "checkRequiredEnvVars pf requires extra =
     (case requires of
        None \<Rightarrow> Inr ()
      | Some reqs \<Rightarrow>
          if length reqs = 0 then Inr ()
          else
            (let missing = missing_env pf reqs extra in
             if length missing > 0 then Inl (missing_env_message missing) else Inr ()))"

subsection \<open>Building the request\<close>

text \<open>
  The assignment \<^verbatim>\<open>headers[key] = text\<close>: for the name \<^verbatim>\<open>__proto__\<close> it calls the
  inherited setter, which ignores a string.
\<close>

definition assign_header :: "(string \<times> string) list \<Rightarrow> string \<Rightarrow> string \<Rightarrow> (string \<times> string) list" where
  "assign_header headers key t = (if key = ''__proto__'' then headers else set_prop headers key t)"

text \<open>The loop over \<^verbatim>\<open>Object.entries(definition.request.headers)\<close>.\<close>

fun interpolate_headers ::
  "(string \<times> string) list \<Rightarrow> TemplateContext \<Rightarrow> (string \<times> string) list \<Rightarrow>
     string + (string \<times> string) list" where
  "interpolate_headers [] ctx headers = Inr headers"
| "interpolate_headers ((key, v) # rest) ctx headers =
     (case interpolateString v ctx True of
        Inl e \<Rightarrow> Inl e
      | Inr t \<Rightarrow> interpolate_headers rest ctx (assign_header headers key t))"

definition build_headers ::
  "(string \<times> string) list option \<Rightarrow> TemplateContext \<Rightarrow> string + (string \<times> string) list" where
  "build_headers hs ctx =
     (case hs of None \<Rightarrow> Inr [] | Some entries \<Rightarrow> interpolate_headers entries ctx [])"

text \<open>\<^verbatim>\<open>if (!headers["Content-Type"]) headers["Content-Type"] = ct\<close>\<close>

definition default_content_type ::
  "(string \<times> string) list \<Rightarrow> string \<Rightarrow> (string \<times> string) list" where
  "default_content_type headers ct =
     (if falsy_str (map_of headers ''Content-Type'') then set_prop headers ''Content-Type'' ct
      else headers)"

text \<open>\<^verbatim>\<open>Object.entries\<close> and \<^verbatim>\<open>String\<close> on what \<^verbatim>\<open>interpolateDeep\<close> built.\<close>

definition built_entries :: "built \<Rightarrow> (string \<times> built) list" where
  "built_entries b =
     (case b of
        BObj proto kvs \<Rightarrow> kvs
      | BArr xs \<Rightarrow> zip (map show_nat [0 ..< length xs]) xs
      | BLeaf v \<Rightarrow> map (\<lambda>(k, x). (k, BLeaf x)) (object_entries v))"

definition built_String :: "platform \<Rightarrow> built \<Rightarrow> string + string" where
  "built_String pf b = (case b of BLeaf v \<Rightarrow> js_String v | _ \<Rightarrow> object_to_string pf b)"

text \<open>The loop that appends \<^verbatim>\<open>String(v)\<close> for every entry to the form data.\<close>

fun form_entries :: "platform \<Rightarrow> (string \<times> built) list \<Rightarrow> string + (string \<times> string) list" where
  "form_entries pf [] = Inr []"
| "form_entries pf ((k, v) # rest) =
     (case built_String pf v of
        Inl e \<Rightarrow> Inl e
      | Inr t \<Rightarrow> (case form_entries pf rest of Inl e \<Rightarrow> Inl e | Inr ts \<Rightarrow> Inr ((k, t) # ts)))"

definition build_body ::
  "platform \<Rightarrow> ApiToolRequestBody option \<Rightarrow> TemplateContext \<Rightarrow> (string \<times> string) list \<Rightarrow>
     string + (string option \<times> (string \<times> string) list)" where
  "build_body pf b ctx headers =
     (case b of
        None \<Rightarrow> Inr (None, headers)
      | Some bd \<Rightarrow>
          (case interpolateDeep (body_content bd) ctx True of
             Inl e \<Rightarrow> Inl e
           | Inr interpolatedContent \<Rightarrow>
               if body_type bd = ''json'' then
                 Inr (Some (json_stringify pf interpolatedContent),
                      default_content_type headers ''application/json'')
               else if body_type bd = ''form'' then
                 (case (if built_is_object interpolatedContent then
                          form_entries pf (built_entries interpolatedContent)
                        else Inr []) of
                    Inl e \<Rightarrow> Inl e
                  | Inr formData \<Rightarrow>
                      Inr (Some (form_encode pf formData),
                           default_content_type headers ''application/x-www-form-urlencoded''))
               else
                 (case built_String pf interpolatedContent of
                    Inl e \<Rightarrow> Inl e
                  | Inr t \<Rightarrow> Inr (Some t, headers))))"

definition effective_timeout :: "ApiToolRequest \<Rightarrow> int" where
  "effective_timeout rq =
     min (case req_timeout_ms rq of None \<Rightarrow> DEFAULT_TIMEOUT_MS | Some t \<Rightarrow> t) MAX_TIMEOUT_MS"

subsection \<open>Reading the response and building the result\<close>

definition parse_response :: "HttpResponse \<Rightarrow> string + jsvalue" where
  "parse_response r =
     (let contentType = (case http_content_type r of None \<Rightarrow> [] | Some c \<Rightarrow> c) in
      if includes_str contentType ''application/json'' then http_json r
      else (case http_text r of Inl e \<Rightarrow> Inl e | Inr t \<Rightarrow> Inr (JStr t)))"

text \<open>\<^verbatim>\<open>definition.response?.summary\<close> and its sibling, when truthy.\<close>

definition optional_template ::
  "ApiToolResponse option \<Rightarrow> (ApiToolResponse \<Rightarrow> string option) \<Rightarrow> string option" where
  "optional_template r sel =
     (case r of
        None \<Rightarrow> None
      | Some x \<Rightarrow> (case sel x of None \<Rightarrow> None | Some t \<Rightarrow> if t = [] then None else Some t))"

text \<open>
  An object or array value read as a dictionary: its own properties, and what its
  prototype gives.
\<close>

definition value_dict :: "platform \<Rightarrow> jsvalue \<Rightarrow> jsvalue jsdict" where
  "value_dict pf v =
     \<lparr>dict_own = slots_of (get_prop v),
      dict_inherited = (case v of JArr xs \<Rightarrow> array_prototype pf | _ \<Rightarrow> object_prototype pf)\<rparr>"

text \<open>An object literal with the given own properties.\<close>

definition literal_dict :: "platform \<Rightarrow> (string \<rightharpoonup> jsvalue) \<Rightarrow> jsvalue jsdict" where
  "literal_dict pf m = \<lparr>dict_own = slots_of m, dict_inherited = object_prototype pf\<rparr>"

definition summary_scope :: "platform \<Rightarrow> jsvalue \<Rightarrow> jsvalue jsdict" where
  "summary_scope pf responseData =
     (if is_object responseData then value_dict pf responseData
      else literal_dict pf [''value'' \<mapsto> responseData])"

definition error_scope :: "platform \<Rightarrow> int \<Rightarrow> jsvalue \<Rightarrow> jsvalue jsdict" where
  "error_scope pf st responseData =
     literal_dict pf
       ([''status'' \<mapsto> JNum (show_int st)] ++
          (if is_object responseData then map_of (object_entries responseData)
           else [''message'' \<mapsto> responseData]))"

definition render_summary ::
  "platform \<Rightarrow> ApiToolDefinition \<Rightarrow> TemplateContext \<Rightarrow> HttpResponse \<Rightarrow> jsvalue \<Rightarrow> ExecuteResult \<Rightarrow>
     string + ExecuteResult" where
  "render_summary pf d ctx resp responseData result =
     (case optional_template (def_response d) resp_summary of
        None \<Rightarrow> Inr result
      | Some t \<Rightarrow>
          if http_ok resp then
            (case interpolateString t
                    (ctx\<lparr>ctx_response := Some (summary_scope pf responseData)\<rparr>) False of
               Inl e \<Rightarrow> Inl e
             | Inr text \<Rightarrow> Inr (result\<lparr>res_summary := Some text\<rparr>))
          else Inr result)"

definition render_error ::
  "platform \<Rightarrow> ApiToolDefinition \<Rightarrow> TemplateContext \<Rightarrow> HttpResponse \<Rightarrow> jsvalue \<Rightarrow> ExecuteResult \<Rightarrow>
     string + ExecuteResult" where
  "render_error pf d ctx resp responseData result =
     (case optional_template (def_response d) resp_error_template of
        None \<Rightarrow> Inr result
      | Some t \<Rightarrow>
          if \<not> http_ok resp then
            (case interpolateString t
                    (ctx\<lparr>ctx_response := Some (error_scope pf (http_status resp) responseData)\<rparr>)
                    False of
               Inl e \<Rightarrow> Inl e
             | Inr text \<Rightarrow> Inr (result\<lparr>res_error := Some text\<rparr>))
          else Inr result)"

definition build_result ::
  "platform \<Rightarrow> ApiToolDefinition \<Rightarrow> TemplateContext \<Rightarrow> HttpResponse \<Rightarrow> jsvalue \<Rightarrow> string + ExecuteResult" where
  "build_result pf d ctx resp responseData =
     (let result =
        \<lparr>res_success = http_ok resp, res_data = Some responseData,
         res_status = Some (http_status resp), res_error = None, res_summary = None\<rparr>
      in case render_summary pf d ctx resp responseData result of
           Inl e \<Rightarrow> Inl e
         | Inr result1 \<Rightarrow> render_error pf d ctx resp responseData result1)"

subsection \<open>The pipeline\<close>

text \<open>The template context of a call: the merged environment and the arguments.\<close>

definition call_context :: "platform \<Rightarrow> ApiToolExecuteParams \<Rightarrow> TemplateContext" where
  "call_context pf p =
     \<lparr>ctx_env = merged_dict pf (ep_extraEnv p), ctx_params = ep_args p,
      ctx_response = None\<rparr>"

text \<open>
  The body of the \<^verbatim>\<open>try\<close> block of \<^verbatim>\<open>executeApiTool\<close>: \<open>Inl\<close> is the message of a
  thrown error, \<open>Inr\<close> the result object. The second component lists the calls of
  \<^verbatim>\<open>fetch\<close> made on the way.
\<close>

definition executeApiTool_try ::
  "platform \<Rightarrow> ApiToolExecuteParams \<Rightarrow> (string + ExecuteResult) \<times> FetchRequest list" where
  "executeApiTool_try pf p =
     (let d = ep_definition p; rq = def_request d in
      case checkRequiredEnvVars pf (def_requires_env d) (ep_extraEnv p) of
        Inl e \<Rightarrow> (Inl e, [])
      | Inr u0 \<Rightarrow>
     (let ctx = call_context pf p in
      case interpolateString (req_url rq) ctx True of
        Inl e \<Rightarrow> (Inl e, [])
      | Inr u \<Rightarrow>
     (case validateUrl pf u (def_allowed_hosts d) of
        Inl e \<Rightarrow> (Inl e, [])
      | Inr u1 \<Rightarrow>
     (case build_headers (req_headers rq) ctx of
        Inl e \<Rightarrow> (Inl e, [])
      | Inr headers \<Rightarrow>
     (case build_body pf (req_body rq) ctx headers of
        Inl e \<Rightarrow> (Inl e, [])
      | Inr (body, headers1) \<Rightarrow>
     (let call = \<lparr>fetch_url = u, fetch_method = req_method rq, fetch_headers = headers1,
                  fetch_body = body, fetch_timeout = effective_timeout rq\<rparr> in
      case fetch pf call of
        Inl e \<Rightarrow> (Inl e, [call])
      | Inr resp \<Rightarrow>
     (case parse_response resp of
        Inl e \<Rightarrow> (Inl e, [call])
      | Inr responseData \<Rightarrow> (build_result pf d ctx resp responseData, [call]))))))))"

text \<open>The result of the \<^verbatim>\<open>catch\<close> block.\<close>

definition failure :: "string \<Rightarrow> ExecuteResult" where
  "failure errorMessage =
     \<lparr>res_success = False, res_data = None, res_status = None,
      res_error = Some errorMessage, res_summary = None\<rparr>"

text \<open>
  \<^verbatim>\<open>executeApiTool\<close>: the result object that is serialised into the returned text
  block, and the calls of \<^verbatim>\<open>fetch\<close>.
\<close>

definition executeApiTool ::
  "platform \<Rightarrow> ApiToolExecuteParams \<Rightarrow> ExecuteResult \<times> FetchRequest list" where
  "executeApiTool pf p =
     (case executeApiTool_try pf p of
        (Inl errorMessage, calls) \<Rightarrow> (failure errorMessage, calls)
      | (Inr result, calls) \<Rightarrow> (result, calls))"

subsection \<open>A sample platform\<close>

text \<open>
  A platform for worked examples. Its URL parser handles plain \<^verbatim>\<open>http://host...\<close> and
  \<^verbatim>\<open>https://host...\<close> URLs: the hostname runs up to the first colon, slash, question
  mark or hash. Its server answers every request with the same response. Its plain
  objects inherit the members of \<^verbatim>\<open>Object.prototype\<close>, functions that \<^verbatim>\<open>String\<close> renders
  as native code.
\<close>

definition sample_hostname :: "string \<Rightarrow> string option" where
  "sample_hostname u =
     (case (case strip_prefix ''http://'' u of
              Some r \<Rightarrow> Some r
            | None \<Rightarrow> strip_prefix ''https://'' u) of
        None \<Rightarrow> None
      | Some r \<Rightarrow>
          (let h = takeWhile (\<lambda>c. c \<notin> set '':/?#'') r in
           if h = [] then None else Some h))"

definition native_function :: "string \<Rightarrow> member" where
  "native_function name = Inr (''function '' @ name @ ''() { [native code] }'')"

definition sample_object_prototype :: "string \<Rightarrow> member option" where
  "sample_object_prototype =
     map_of
       ([(''constructor'', native_function ''Object''), (''__proto__'', Inr ''[object Object]'')]
        @ map (\<lambda>name. (name, native_function name))
            [''toString'', ''toLocaleString'', ''valueOf'', ''hasOwnProperty'', ''isPrototypeOf'',
             ''propertyIsEnumerable'', ''__defineGetter__'', ''__defineSetter__'',
             ''__lookupGetter__'', ''__lookupSetter__''])"

definition sample_array_prototype :: "string \<Rightarrow> member option" where
  "sample_array_prototype =
     map_of
       ([(''constructor'', native_function ''Array''), (''__proto__'', Inr [])]
        @ map (\<lambda>name. (name, native_function name))
            [''toString'', ''join'', ''map'', ''push'', ''valueOf'', ''hasOwnProperty''])"

definition sample_response :: HttpResponse where
  "sample_response =
     \<lparr>http_status = 200, http_content_type = Some ''application/json; charset=utf-8'',
      http_json = Inr (JObj [(''id'', JNum ''7'')]), http_text = Inr ''id=7''\<rparr>"

text \<open>A response whose payload holds an object with an own property \<^verbatim>\<open>toString\<close>.\<close>

definition shadowing_response :: HttpResponse where
  "shadowing_response =
     \<lparr>http_status = 200, http_content_type = Some ''application/json'',
      http_json = Inr (JObj [(''a'', JObj [(''toString'', JNum ''1'')])]),
      http_text = Inr []\<rparr>"

definition sample_platform_with :: "HttpResponse \<Rightarrow> platform" where
  "sample_platform_with resp =
     \<lparr>process_env = [''HOME'' \<mapsto> ''/root'', ''EMPTY_VAR'' \<mapsto> []],
      url_hostname = sample_hostname,
      json_stringify = (\<lambda>b. ''{}''),
      object_to_string = (\<lambda>b. Inr ''[object Object]''),
      form_encode = (\<lambda>kvs. join ''&'' (map (\<lambda>(k, v). k @ ''='' @ v) kvs)),
      fetch = (\<lambda>call. Inr resp),
      object_prototype = sample_object_prototype,
      array_prototype = sample_array_prototype\<rparr>"

definition sample_platform :: platform where
  "sample_platform = sample_platform_with sample_response"

definition sample_definition :: "string \<Rightarrow> string list \<Rightarrow> ApiToolDefinition" where
  "sample_definition u hosts =
     \<lparr>def_name = ''sample_tool'', def_description = ''test'', def_parameters = None,
      def_request = \<lparr>req_method = ''GET'', req_url = u, req_headers = None, req_body = None,
                      req_timeout_ms = Some 120000\<rparr>,
      def_response = None, def_requires_env = None, def_allowed_hosts = hosts\<rparr>"

text \<open>A call with no arguments: the empty plain object.\<close>

definition sample_call :: "ApiToolDefinition \<Rightarrow> ApiToolExecuteParams" where
  "sample_call d =
     \<lparr>ep_definition = d,
      ep_args = \<lparr>dict_own = slots_of Map.empty, dict_inherited = sample_object_prototype\<rparr>,
      ep_extraEnv = None\<rparr>"

section \<open>Definition loader (yaml-loader.ts)\<close>

text \<open>
  The file system and the YAML parser the loader calls: \<^verbatim>\<open>existsSync\<close>,
  \<^verbatim>\<open>readdirSync\<close>, \<^verbatim>\<open>readFileSync\<close>, \<^verbatim>\<open>parse\<close> of the yaml package and \<^verbatim>\<open>join\<close> of
  node:path. \<open>Inl\<close> is the message of a thrown error.
\<close>

record filesystem =
  fs_exists :: "string \<Rightarrow> bool"
  fs_readdir :: "string \<Rightarrow> string + string list"
  fs_readFile :: "string \<Rightarrow> string + string"
  fs_parseYaml :: "string \<Rightarrow> string + jsvalue"
  fs_join :: "string \<Rightarrow> string \<Rightarrow> string"

text \<open>\<^verbatim>\<open>TOOL_NAME_PATTERN = /^[a-z][a-z0-9_]*$/\<close>\<close>

definition TOOL_NAME_PATTERN :: "string \<Rightarrow> bool" where
  "TOOL_NAME_PATTERN s =
     (case s of
        [] \<Rightarrow> False
      | c # cs \<Rightarrow>
          c \<in> set ''abcdefghijklmnopqrstuvwxyz''
          \<and> list_all (\<lambda>x. x \<in> set ''abcdefghijklmnopqrstuvwxyz0123456789_'') cs)"

text \<open>\<^verbatim>\<open>list.includes(v as string)\<close> for a list of strings: strict equality.\<close>

definition includes_value :: "string list \<Rightarrow> jsvalue option \<Rightarrow> bool" where
  "includes_value xs v = (case v of Some (JStr s) \<Rightarrow> s \<in> set xs | _ \<Rightarrow> False)"

text \<open>\<^verbatim>\<open>typeof v === "string"\<close> on a property that may be undefined.\<close>

definition is_string :: "jsvalue option \<Rightarrow> bool" where
  "is_string v = (case v of Some (JStr s) \<Rightarrow> True | _ \<Rightarrow> False)"

text \<open>
  The loop over the entries of \<^verbatim>\<open>d.parameters\<close>: \<open>Inl\<close> is the warning of the first
  entry that is refused.
\<close>

fun validate_parameters :: "string \<Rightarrow> (string \<times> jsvalue) list \<Rightarrow> string + unit" where
  "validate_parameters filename [] = Inr ()"
| "validate_parameters filename ((key, param) # rest) =
     (if \<not> is_object param then
        Inl (''api-tools: '' @ filename @ '' parameter '' @ [CHR 0x27] @ key @ [CHR 0x27]
               @ '' is invalid'')
      else if \<not> includes_value [''string'', ''number'', ''boolean'', ''integer'']
                 (get_prop param ''type'') then
        Inl (''api-tools: '' @ filename @ '' parameter '' @ [CHR 0x27] @ key @ [CHR 0x27]
               @ '' has invalid type'')
      else validate_parameters filename rest)"

text \<open>
  \<^verbatim>\<open>validateDefinition\<close>: \<open>Inl\<close> is the warning written when the function returns null,
  \<open>Inr\<close> the definition it returns, which is the parsed value itself.
\<close>

definition validateDefinition :: "jsvalue \<Rightarrow> string \<Rightarrow> string + jsvalue" where
  "validateDefinition d filename =
     (if \<not> is_object d then Inl (''api-tools: '' @ filename @ '' is not a valid object'')
      else if \<not> is_string (get_prop d ''name'')
              \<or> \<not> TOOL_NAME_PATTERN (case get_prop d ''name'' of Some (JStr n) \<Rightarrow> n | _ \<Rightarrow> [])
      then Inl (''api-tools: '' @ filename
                  @ '' has invalid name (must match /^[a-z][a-z0-9_]*$/)'')
      else if \<not> is_string (get_prop d ''description'') then
        Inl (''api-tools: '' @ filename @ '' missing description'')
      else
        (case get_prop d ''request'' of
           None \<Rightarrow> Inl (''api-tools: '' @ filename @ '' missing request block'')
         | Some req \<Rightarrow>
             if \<not> is_object req then
               Inl (''api-tools: '' @ filename @ '' missing request block'')
             else if \<not> includes_value [''GET'', ''POST'', ''PUT'', ''PATCH'', ''DELETE'']
                        (get_prop req ''method'') then
               Inl (''api-tools: '' @ filename @ '' has invalid request.method'')
             else if \<not> is_string (get_prop req ''url'') then
               Inl (''api-tools: '' @ filename @ '' missing request.url'')
             else if (case get_prop d ''allowed_hosts'' of
                        Some (JArr hosts) \<Rightarrow> length hosts = 0
                      | _ \<Rightarrow> True) then
               Inl (''api-tools: '' @ filename @ '' missing or empty allowed_hosts'')
             else
               (case get_prop d ''parameters'' of
                  None \<Rightarrow> Inr d
                | Some ps \<Rightarrow>
                    if \<not> is_object ps then
                      Inl (''api-tools: '' @ filename @ '' has invalid parameters'')
                    else
                      (case validate_parameters filename (object_entries ps) of
                         Inl w \<Rightarrow> Inl w
                       | Inr u \<Rightarrow> Inr d))))"

text \<open>
  The body of the \<^verbatim>\<open>try\<close> block for one file: \<open>Inl\<close> is the warning written for the
  file, \<open>Inr\<close> the definition that is pushed.
\<close>

definition load_file :: "filesystem \<Rightarrow> string \<Rightarrow> string \<Rightarrow> string + jsvalue" where
  "load_file fs apiToolsDir file =
     (case fs_readFile fs (fs_join fs apiToolsDir file) of
        Inl e \<Rightarrow> Inl (''api-tools: failed to parse '' @ file @ '': '' @ e)
      | Inr content \<Rightarrow>
          (case fs_parseYaml fs content of
             Inl e \<Rightarrow> Inl (''api-tools: failed to parse '' @ file @ '': '' @ e)
           | Inr parsed \<Rightarrow> validateDefinition parsed file))"

definition is_yaml_file :: "string \<Rightarrow> bool" where
  "is_yaml_file file \<longleftrightarrow> suffix ''.yaml'' file \<or> suffix ''.yml'' file"

text \<open>
  The loop over the directory listing, with the definitions collected so far and the
  warnings written so far.
\<close>

fun load_files ::
  "filesystem \<Rightarrow> string \<Rightarrow> string list \<Rightarrow> jsvalue list \<Rightarrow> string list \<Rightarrow>
     jsvalue list \<times> string list" where
  "load_files fs apiToolsDir [] definitions warnings = (definitions, warnings)"
| "load_files fs apiToolsDir (file # files) definitions warnings =
     (if \<not> is_yaml_file file then load_files fs apiToolsDir files definitions warnings
      else
        (case load_file fs apiToolsDir file of
           Inl w \<Rightarrow> load_files fs apiToolsDir files definitions (warnings @ [w])
         | Inr validated \<Rightarrow>
             load_files fs apiToolsDir files (definitions @ [validated]) warnings))"

definition loadToolDefinitions :: "filesystem \<Rightarrow> string \<Rightarrow> jsvalue list \<times> string list" where
  "loadToolDefinitions fs agentDir =
     (let apiToolsDir = fs_join fs agentDir ''api-tools'' in
      if \<not> fs_exists fs apiToolsDir then ([], [])
      else
        (case fs_readdir fs apiToolsDir of
           Inl e \<Rightarrow> ([], [])
         | Inr files \<Rightarrow> load_files fs apiToolsDir files [] []))"

text \<open>
  The structural rules as the specification words them: a name of the identifier
  pattern, a description, a request block with one of the five methods and a string
  URL, a non-empty list of allowed hosts, and, when parameters are declared, each
  declaration an object with one of the four primitive types.
\<close>

definition spec_parameter_ok :: "jsvalue \<Rightarrow> bool" where
  "spec_parameter_ok param \<longleftrightarrow>
     is_object param
     \<and> (case get_prop param ''type'' of
          Some (JStr t) \<Rightarrow> t \<in> set [''string'', ''number'', ''boolean'', ''integer'']
        | _ \<Rightarrow> False)"

definition spec_request_ok :: "jsvalue \<Rightarrow> bool" where
  "spec_request_ok req \<longleftrightarrow>
     is_object req
     \<and> (case get_prop req ''method'' of
          Some (JStr m) \<Rightarrow> m \<in> set [''GET'', ''POST'', ''PUT'', ''PATCH'', ''DELETE'']
        | _ \<Rightarrow> False)
     \<and> (case get_prop req ''url'' of Some (JStr u) \<Rightarrow> True | _ \<Rightarrow> False)"

definition spec_valid_definition :: "jsvalue \<Rightarrow> bool" where
  "spec_valid_definition d \<longleftrightarrow>
     is_object d
     \<and> (case get_prop d ''name'' of Some (JStr n) \<Rightarrow> TOOL_NAME_PATTERN n | _ \<Rightarrow> False)
     \<and> (case get_prop d ''description'' of Some (JStr s) \<Rightarrow> True | _ \<Rightarrow> False)
     \<and> (case get_prop d ''request'' of Some req \<Rightarrow> spec_request_ok req | None \<Rightarrow> False)
     \<and> (case get_prop d ''allowed_hosts'' of Some (JArr hosts) \<Rightarrow> hosts \<noteq> [] | _ \<Rightarrow> False)
     \<and> (case get_prop d ''parameters'' of
          None \<Rightarrow> True
        | Some ps \<Rightarrow> is_object ps \<and> list_all (\<lambda>(key, param). spec_parameter_ok param)
                                          (object_entries ps))"

section \<open>Parameter schema builder (schema-builder.ts)\<close>

text \<open>
  The schemas of the TypeBox library that the builder constructs. \<open>TObject\<close> is
  \<^verbatim>\<open>Type.Object\<close> applied to a properties object: the own properties of that object and,
  when an assignment has replaced it, its prototype. The library lists as required the
  own properties whose schema is not wrapped in \<open>TOptional\<close>.
\<close>

datatype tschema =
    TString "string option"
  | TNumber "string option"
  | TInteger "string option"
  | TBoolean "string option"
  | TLiteral string
  | TUnion "tschema list" "string option"
  | TOptional tschema
  | TObject "tschema option" "(string \<times> tschema) list"

definition is_optional :: "tschema \<Rightarrow> bool" where
  "is_optional t = (case t of TOptional u \<Rightarrow> True | _ \<Rightarrow> False)"

definition schema_required :: "tschema \<Rightarrow> string list" where
  "schema_required t =
     (case t of
        TObject proto props \<Rightarrow> map fst (filter (\<lambda>(k, u). \<not> is_optional u) props)
      | _ \<Rightarrow> [])"

definition schema_properties :: "tschema \<Rightarrow> (string \<times> tschema) list" where
  "schema_properties t = (case t of TObject proto props \<Rightarrow> props | _ \<Rightarrow> [])"

text \<open>The \<^verbatim>\<open>switch\<close> on \<^verbatim>\<open>param.type\<close>.\<close>

definition base_schema :: "ApiToolParameter \<Rightarrow> tschema" where
  "base_schema param =
     (if param_type param = ''string'' then
        (case param_enum param of
           None \<Rightarrow> TString (param_description param)
         | Some vs \<Rightarrow>
             if length vs > 0 then TUnion (map TLiteral vs) (param_description param)
             else TString (param_description param))
      else if param_type param = ''number'' then TNumber (param_description param)
      else if param_type param = ''integer'' then TInteger (param_description param)
      else if param_type param = ''boolean'' then TBoolean (param_description param)
      else TString (param_description param))"

text \<open>The schema stored for a parameter: wrapped as optional unless it is required.\<close>

definition field_schema :: "ApiToolParameter \<Rightarrow> tschema" where
  "field_schema param =
     (if param_required param = Some True then base_schema param
      else TOptional (base_schema param))"

text \<open>
  The assignment \<^verbatim>\<open>properties[name] = schema\<close>. A schema is an object, so for the name
  \<^verbatim>\<open>__proto__\<close> the inherited setter makes it the prototype of \<^verbatim>\<open>properties\<close> and no
  property is added.
\<close>

definition assign_property ::
  "tschema option \<times> (string \<times> tschema) list \<Rightarrow> string \<Rightarrow> tschema \<Rightarrow>
     tschema option \<times> (string \<times> tschema) list" where
  "assign_property properties name schema =
     (if name = ''__proto__'' then (Some schema, snd properties)
      else (fst properties, set_prop (snd properties) name schema))"

text \<open>
  The loop over the parameter entries, with the \<^verbatim>\<open>properties\<close> object and the
  \<^verbatim>\<open>required\<close> array it fills.
\<close>

fun build_properties ::
  "(string \<times> ApiToolParameter) list \<Rightarrow> tschema option \<times> (string \<times> tschema) list \<Rightarrow> string list \<Rightarrow>
     (tschema option \<times> (string \<times> tschema) list) \<times> string list" where
  "build_properties [] properties required = (properties, required)"
| "build_properties ((name, param) # rest) properties required =
     (if param_required param = Some True then
        build_properties rest (assign_property properties name (base_schema param))
          (required @ [name])
      else
        build_properties rest (assign_property properties name (TOptional (base_schema param)))
          required)"

definition buildParameterSchema :: "(string \<times> ApiToolParameter) list option \<Rightarrow> tschema" where
  "buildParameterSchema parameters =
     (case parameters of
        None \<Rightarrow> TObject None []
      | Some ps \<Rightarrow>
          if length ps = 0 then TObject None []
          else
            (case fst (build_properties ps (None, []) []) of
               (proto, props) \<Rightarrow> TObject proto props))"

subsection \<open>A sample tool directory\<close>

text \<open>
  A directory with a valid definition, a definition without a name, a file that does
  not parse, and a file that is not YAML.
\<close>

definition good_definition :: jsvalue where
  "good_definition =
     JObj [(''name'', JStr ''test_tool''),
           (''description'', JStr ''A test tool''),
           (''parameters'', JObj [(''msg'', JObj [(''type'', JStr ''string''),
                                                  (''required'', JBool True)])]),
           (''request'', JObj [(''method'', JStr ''POST''),
                               (''url'', JStr ''https://api.example.com/test'')]),
           (''allowed_hosts'', JArr [JStr ''api.example.com''])]"

definition nameless_definition :: jsvalue where
  "nameless_definition =
     JObj [(''description'', JStr ''Missing name field''),
           (''request'', JObj [(''method'', JStr ''GET''),
                               (''url'', JStr ''https://example.com'')]),
           (''allowed_hosts'', JArr [JStr ''example.com''])]"

definition sample_fs :: filesystem where
  "sample_fs =
     \<lparr>fs_exists = (\<lambda>path. path = ''/agent/api-tools''),
      fs_readdir = (\<lambda>path. Inr [''bad.yaml'', ''good.yaml'', ''notes.txt'', ''broken.yml'']),
      fs_readFile = (\<lambda>path. Inr path),
      fs_parseYaml = (\<lambda>content.
         if content = ''/agent/api-tools/good.yaml'' then Inr good_definition
         else if content = ''/agent/api-tools/bad.yaml'' then Inr nameless_definition
         else Inl ''unexpected token''),
      fs_join = (\<lambda>a b. a @ ''/'' @ b)\<rparr>"

definition sample_parameters :: "(string \<times> ApiToolParameter) list" where
  "sample_parameters =
     [(''text'', \<lparr>param_type = ''string'', param_description = Some ''The text'',
                  param_required = Some True, param_enum = None, param_default = None\<rparr>),
      (''visibility'', \<lparr>param_type = ''string'', param_description = None,
                        param_required = Some False, param_enum = Some [''PUBLIC'', ''PRIVATE''],
                        param_default = None\<rparr>),
      (''count'', \<lparr>param_type = ''integer'', param_description = None,
                   param_required = None, param_enum = None, param_default = None\<rparr>)]"

text \<open>
  Declarations in which the parameter named \<^verbatim>\<open>__proto__\<close> is declared required.
\<close>

definition proto_parameters :: "(string \<times> ApiToolParameter) list" where
  "proto_parameters =
     [(''__proto__'', \<lparr>param_type = ''string'', param_description = None,
                       param_required = Some True, param_enum = None, param_default = None\<rparr>),
      (''q'', \<lparr>param_type = ''string'', param_description = None,
               param_required = Some True, param_enum = None, param_default = None\<rparr>)]"

subsection \<open>Sample template contexts\<close>

text \<open>A context of plain objects, and the context of empty plain objects.\<close>

definition plain_object :: "(string \<rightharpoonup> 'v) \<Rightarrow> 'v jsdict" where
  "plain_object m = \<lparr>dict_own = slots_of m, dict_inherited = sample_object_prototype\<rparr>"

definition sample_context :: TemplateContext where
  "sample_context =
     \<lparr>ctx_env = plain_object [''API_KEY'' \<mapsto> ''secret123'', ''BLANK'' \<mapsto> []],
      ctx_params = plain_object [''name'' \<mapsto> JStr ''World'', ''count'' \<mapsto> JNum ''42'',
                                 ''opts'' \<mapsto> JObj [(''toString'', JNum ''1'')]],
      ctx_response = None\<rparr>"

definition empty_context :: TemplateContext where
  "empty_context =
     \<lparr>ctx_env = plain_object Map.empty, ctx_params = plain_object Map.empty,
      ctx_response = Some (plain_object Map.empty)\<rparr>"

section \<open>Properties of the template engine\<close>

subsection \<open>The pattern\<close>

lemma strip_prefix_iff: "strip_prefix p s = Some r \<longleftrightarrow> s = p @ r"
  by (induction p s rule: strip_prefix.induct) auto

lemma strip_prefix_append [simp]: "strip_prefix p (p @ r) = Some r"
  by (simp add: strip_prefix_iff)

lemma match_scope_iff: "match_scope s = Some (sc, r) \<longleftrightarrow> known_scope sc \<and> s = sc @ r"
proof
  assume "match_scope s = Some (sc, r)"
  then show "known_scope sc \<and> s = sc @ r"
    by (auto simp: match_scope_def known_scope_def strip_prefix_iff split: option.splits)
next
  assume "known_scope sc \<and> s = sc @ r"
  then consider "sc = ''env''" "s = ''env'' @ r" | "sc = ''params''" "s = ''params'' @ r"
    | "sc = ''response''" "s = ''response'' @ r"
    by (auto simp: known_scope_def)
  then show "match_scope s = Some (sc, r)"
    by cases (simp_all add: match_scope_def)
qed

lemma not_key_char_brace: "\<not> is_key_char (CHR ''}'')"
  by (simp add: is_key_char_def is_key_start_def)

lemma match_template_placeholder:
  assumes "known_scope sc" and "valid_key k"
  shows "match_template (placeholder sc k @ post) = Some (sc, k, post)"
proof -
  from assms(2) obtain c cs where k: "k = c # cs" and c: "is_key_start c"
    and cs: "list_all is_key_char cs"
    by (auto simp: valid_key_def split: list.splits)
  have s1: "strip_prefix ''{{'' (placeholder sc k @ post) = Some (sc @ ''.'' @ k @ ''}}'' @ post)"
    by (simp add: placeholder_def)
  have s2: "match_scope (sc @ ''.'' @ k @ ''}}'' @ post) = Some (sc, ''.'' @ k @ ''}}'' @ post)"
    using assms(1) by (simp add: match_scope_iff)
  have tw: "takeWhile is_key_char (cs @ CHR ''}'' # CHR ''}'' # post) = cs"
    using cs not_key_char_brace by (simp add: list_all_iff takeWhile_tail)
  have dw: "dropWhile is_key_char (cs @ CHR ''}'' # CHR ''}'' # post) = ''}}'' @ post"
    using cs not_key_char_brace by (simp add: list_all_iff dropWhile_append3)
  show ?thesis
    unfolding match_template_def s1 option.case s2 prod.case
    using c by (simp add: k tw dw)
qed

lemma match_template_SomeD:
  assumes "match_template s = Some (sc, k, rest)"
  shows "known_scope sc \<and> valid_key k \<and> s = placeholder sc k @ rest"
proof -
  from assms obtain s1 s2 s3 c s4 where
    a: "strip_prefix ''{{'' s = Some s1" and
    b: "match_scope s1 = Some (sc, s2)" and
    c: "strip_prefix ''.'' s2 = Some s3" and
    d: "s3 = c # s4" and
    ks: "is_key_start c" and
    k: "k = c # takeWhile is_key_char s4" and
    e: "strip_prefix ''}}'' (dropWhile is_key_char s4) = Some rest"
    by (auto simp: match_template_def split: option.splits list.splits if_splits)
  have "dropWhile is_key_char s4 = ''}}'' @ rest"
    using e by (simp add: strip_prefix_iff)
  then have s4: "s4 = takeWhile is_key_char s4 @ ''}}'' @ rest"
    by (metis takeWhile_dropWhile_id)
  have vk: "valid_key k"
    using ks k by (simp add: valid_key_def list_all_iff) (meson set_takeWhileD)
  have "s = ''{{'' @ sc @ ''.'' @ c # s4"
    using a b c d by (simp add: strip_prefix_iff match_scope_iff)
  then have "s = placeholder sc k @ rest"
    using s4 k by (simp add: placeholder_def)
  with vk b show ?thesis
    by (simp add: match_scope_iff)
qed

lemma match_template_iff:
  "match_template s = Some (sc, k, rest) \<longleftrightarrow> known_scope sc \<and> valid_key k \<and> s = placeholder sc k @ rest"
  using match_template_SomeD match_template_placeholder by blast

subsection \<open>The scan\<close>

lemma then_append_Nil [simp]: "then_append (Inr []) b = b"
  by (simp add: then_append_def split: sum.splits)

lemma then_append_assoc:
  "then_append (then_append a b) c = then_append a (then_append b c)"
  by (simp add: then_append_def split: sum.splits)

lemma then_append_Inr_Inr [simp]: "then_append (Inr x) (Inr y) = Inr (x @ y)"
  by (simp add: then_append_def)

lemma then_append_Inl [simp]: "then_append (Inl e) b = Inl e"
  by (simp add: then_append_def)

lemma scan_no_match:
  "match_template (c # cs) = None \<Longrightarrow>
   interpolate_scan ctx st (c # cs) = then_append (Inr [c]) (interpolate_scan ctx st cs)"
  by (simp add: then_append_def split: sum.splits)

lemma scan_match:
  "match_template (c # cs) = Some (sc, k, rest) \<Longrightarrow>
   interpolate_scan ctx st (c # cs) =
     then_append (replacer ctx st (placeholder sc k) sc k) (interpolate_scan ctx st rest)"
  by (simp add: then_append_def split: sum.splits)

declare interpolate_scan.simps(2) [simp del]

lemma scan_placeholder:
  assumes "known_scope sc" and "valid_key k"
  shows "interpolate_scan ctx st (placeholder sc k @ post) =
     then_append (replacer ctx st (placeholder sc k) sc k) (interpolate_scan ctx st post)"
proof -
  obtain c cs where eq: "placeholder sc k @ post = c # cs"
    by (cases "placeholder sc k @ post") (simp_all add: placeholder_def)
  have "match_template (c # cs) = Some (sc, k, post)"
    using match_template_placeholder [OF assms, of post] eq by simp
  then show ?thesis
    unfolding eq by (rule scan_match)
qed

lemma key_char_not_brace: "is_key_char c \<Longrightarrow> c \<noteq> CHR ''{''"
  by (auto simp: is_key_char_def is_key_start_def)

lemma valid_key_all_key_chars: "valid_key k \<Longrightarrow> list_all is_key_char k"
  by (cases k) (auto simp: valid_key_def is_key_char_def)

lemma valid_key_no_brace: "valid_key k \<Longrightarrow> CHR ''{'' \<notin> set k"
  using valid_key_all_key_chars key_char_not_brace by (fastforce simp: list_all_iff)

lemma known_scope_no_brace: "known_scope sc \<Longrightarrow> CHR ''{'' \<notin> set sc"
  by (auto simp: known_scope_def)

lemma placeholder_body_no_brace:
  assumes "known_scope sc" and "valid_key k"
  shows "CHR ''{'' \<notin> set (sc @ ''.'' @ k @ ''}}'')"
  using known_scope_no_brace [OF assms(1)] valid_key_no_brace [OF assms(2)] by simp

lemma placeholder_prefix_of_left:
  assumes eq: "s @ ''{{'' @ t = placeholder sc k @ rest"
    and "s \<noteq> []" and sc: "known_scope sc" and k: "valid_key k"
  shows "\<exists>s'. s = placeholder sc k @ s'"
proof -
  let ?body = "sc @ ''.'' @ k @ ''}}''"
  have nb: "CHR ''{'' \<notin> set ?body"
    by (rule placeholder_body_no_brace [OF sc k])
  have ph: "placeholder sc k = CHR ''{'' # CHR ''{'' # ?body"
    by (simp add: placeholder_def)
  from eq obtain us where
    "(s = placeholder sc k @ us \<and> us @ ''{{'' @ t = rest) \<or>
     (s @ us = placeholder sc k \<and> ''{{'' @ t = us @ rest)"
    by (auto simp: append_eq_append_conv2)
  then show ?thesis
  proof
    assume "s = placeholder sc k @ us \<and> us @ ''{{'' @ t = rest"
    then show ?thesis by blast
  next
    assume a: "s @ us = placeholder sc k \<and> ''{{'' @ t = us @ rest"
    show ?thesis
    proof (cases us)
      case Nil
      with a show ?thesis by simp
    next
      case (Cons u us')
      with a have u: "u = CHR ''{''" by simp
      from \<open>s \<noteq> []\<close> obtain c s2 where s: "s = c # s2" by (cases s) auto
      from a s Cons u ph have s2: "s2 @ CHR ''{'' # us' = CHR ''{'' # ?body"
        by simp
      show ?thesis
      proof (cases s2)
        case Nil
        with s2 have body: "us' = ?body" by simp
        from a Cons u have "CHR ''{'' # t = us' @ rest" by simp
        with body have "hd ?body = CHR ''{''"
          by (cases sc) (auto simp: Cons_eq_append_conv)
        moreover have "hd ?body \<in> set ?body"
          by (rule hd_in_set) simp
        ultimately show ?thesis using nb by metis
      next
        case (Cons d s3)
        with s2 have "s3 @ CHR ''{'' # us' = ?body" by simp
        then have "CHR ''{'' \<in> set ?body"
          by (metis in_set_conv_decomp)
        with nb show ?thesis by blast
      qed
    qed
  qed
qed

lemma match_template_append:
  assumes "s \<noteq> []"
  shows "match_template (s @ ''{{'' @ t) =
     (case match_template s of
        None \<Rightarrow> None
      | Some (sc, k, rest) \<Rightarrow> Some (sc, k, rest @ ''{{'' @ t))"
proof (cases "match_template s")
  case (Some r)
  obtain sc k rest where r: "r = (sc, k, rest)" by (cases r) auto
  from Some r have "known_scope sc" "valid_key k" "s = placeholder sc k @ rest"
    using match_template_SomeD by blast+
  then have "match_template (s @ ''{{'' @ t) = Some (sc, k, rest @ ''{{'' @ t)"
    using match_template_placeholder [of sc k "rest @ ''{{'' @ t"] by simp
  with Some r show ?thesis by simp
next
  case None
  have "match_template (s @ ''{{'' @ t) = None"
  proof (rule ccontr)
    assume "match_template (s @ ''{{'' @ t) \<noteq> None"
    then obtain sc k rest where m: "match_template (s @ ''{{'' @ t) = Some (sc, k, rest)"
      by auto
    then have sc: "known_scope sc" and k: "valid_key k"
      and eq: "s @ ''{{'' @ t = placeholder sc k @ rest"
      using match_template_SomeD by blast+
    from placeholder_prefix_of_left [OF eq assms sc k]
    obtain s' where "s = placeholder sc k @ s'" by blast
    then have "match_template s = Some (sc, k, s')"
      using match_template_placeholder [OF sc k] by simp
    with None show False by simp
  qed
  with None show ?thesis by simp
qed

lemma scan_append_braces:
  "interpolate_scan ctx st (s @ ''{{'' @ t) =
     then_append (interpolate_scan ctx st s) (interpolate_scan ctx st (''{{'' @ t))"
proof (induction ctx st s rule: interpolate_scan.induct)
  case (1 ctx st)
  show ?case by simp
next
  case (2 ctx st c cs)
  show ?case
  proof (cases "match_template (c # cs)")
    case None
    then have n: "match_template ((c # cs) @ ''{{'' @ t) = None"
      using match_template_append [of "c # cs" t] by simp
    have "interpolate_scan ctx st ((c # cs) @ ''{{'' @ t) =
        then_append (Inr [c]) (interpolate_scan ctx st (cs @ ''{{'' @ t))"
      using scan_no_match [of c "cs @ ''{{'' @ t"] n by simp
    also have "\<dots> = then_append (Inr [c])
        (then_append (interpolate_scan ctx st cs) (interpolate_scan ctx st (''{{'' @ t)))"
      using "2.IH"(1) [OF None] by simp
    also have "\<dots> = then_append (interpolate_scan ctx st (c # cs))
        (interpolate_scan ctx st (''{{'' @ t))"
      by (simp add: scan_no_match [OF None] then_append_assoc)
    finally show ?thesis .
  next
    case (Some r)
    obtain sc k rest where r: "r = (sc, k, rest)" by (cases r) auto
    with Some have m: "match_template (c # cs) = Some (sc, k, rest)" by simp
    then have m2: "match_template ((c # cs) @ ''{{'' @ t) = Some (sc, k, rest @ ''{{'' @ t)"
      using match_template_append [of "c # cs" t] by simp
    let ?v = "replacer ctx st (placeholder sc k) sc k"
    have "interpolate_scan ctx st ((c # cs) @ ''{{'' @ t) =
        then_append ?v (interpolate_scan ctx st (rest @ ''{{'' @ t))"
      using scan_match [of c "cs @ ''{{'' @ t" sc k "rest @ ''{{'' @ t"] m2 by simp
    also have "\<dots> = then_append ?v
        (then_append (interpolate_scan ctx st rest) (interpolate_scan ctx st (''{{'' @ t)))"
    proof (cases ?v)
      case (Inl e)
      then show ?thesis by simp
    next
      case (Inr v)
      then show ?thesis
        using "2.IH"(2) [OF m refl refl Inr] by simp
    qed
    also have "\<dots> = then_append (interpolate_scan ctx st (c # cs))
        (interpolate_scan ctx st (''{{'' @ t))"
      by (simp add: scan_match [OF m] then_append_assoc)
    finally show ?thesis .
  qed
qed

lemma interpolate_around_placeholder:
  assumes "known_scope sc" and "valid_key k"
  shows "interpolateString (pre @ placeholder sc k @ post) ctx st =
     then_append (interpolateString pre ctx st)
       (then_append (replacer ctx st (placeholder sc k) sc k) (interpolateString post ctx st))"
proof -
  have eq: "placeholder sc k @ post = ''{{'' @ (sc @ ''.'' @ k @ ''}}'' @ post)"
    by (simp add: placeholder_def)
  have "interpolate_scan ctx st (pre @ placeholder sc k @ post) =
      then_append (interpolate_scan ctx st pre) (interpolate_scan ctx st (placeholder sc k @ post))"
    unfolding eq by (rule scan_append_braces)
  then show ?thesis
    by (simp add: interpolateString_def scan_placeholder [OF assms])
qed

lemmas template_eval =
  interpolateString_def interpolate_scan.simps match_template_def match_scope_def
  replacer_def placeholder_def is_key_start_def is_key_char_def valid_key_def known_scope_def
  then_append_def sample_context_def empty_context_def plain_object_def js_get_def slots_of_def
  sample_object_prototype_def native_function_def merged_dict_def merged_env_def

subsection \<open>Keys that name an inherited member\<close>

text \<open>
  Claim C5. In strict mode a placeholder of the environment scope whose key is absent
  from that scope makes \<^verbatim>\<open>interpolateString\<close> throw an error naming the key. The code
  reads \<^verbatim>\<open>ctx.env[key]\<close> and compares with undefined, and the read also finds what the
  object inherits. With the empty object as environment the key \<^verbatim>\<open>constructor\<close> is no
  own property, yet strict mode returns the text of the inherited function instead of
  throwing; the key \<^verbatim>\<open>nothing\<close>, which no prototype has, throws as described.
\<close>

theorem strict_env_inherited_name:
  "dict_own (ctx_env empty_context) ''constructor'' = Absent
   \<and> interpolateString ''{{env.constructor}}'' empty_context True
       = Inr ''function Object() { [native code] }''
   \<and> interpolateString ''{{env.nothing}}'' empty_context True
       = Inl ''Missing required environment variable: nothing''"
  by code_simp

text \<open>
  Claim C6. A placeholder of the parameter or response scope whose key is absent is
  replaced by the empty string, never with an error, and a value that is not a string
  is replaced by its textual form. The code reads \<^verbatim>\<open>ctx.params[key]\<close> and
  \<^verbatim>\<open>ctx.response[key]\<close>, which also find inherited members, and converts with
  \<^verbatim>\<open>String(value)\<close>, which throws on an object with an own property \<^verbatim>\<open>toString\<close>. With
  empty objects as scopes the keys \<^verbatim>\<open>toString\<close> and \<^verbatim>\<open>hasOwnProperty\<close> are replaced by
  the texts of the inherited functions; with the parameter \<^verbatim>\<open>opts\<close> holding
  \<^verbatim>\<open>{toString: 1}\<close> the interpolation throws, also in non-strict mode.
\<close>

theorem optional_scopes_inherited_name:
  "dict_own (ctx_params empty_context) ''toString'' = Absent
   \<and> interpolateString ''a{{params.toString}}b{{response.hasOwnProperty}}'' empty_context True
       = Inr ''afunction toString() { [native code] }bfunction hasOwnProperty() { [native code] }''
   \<and> interpolateString ''x{{params.opts}}'' sample_context False
       = Inl ''Cannot convert object to primitive value''"
  by code_simp

section \<open>Properties of the executor\<close>

lemma includes_str_iff: "includes_str s sub \<longleftrightarrow> (\<exists>a b. s = a @ sub @ b)"
proof (induction s)
  case Nil
  show ?case by auto
next
  case (Cons c cs)
  show ?case
  proof
    assume "includes_str (c # cs) sub"
    then consider "prefix sub (c # cs)" | "includes_str cs sub" by auto
    then show "\<exists>a b. c # cs = a @ sub @ b"
    proof cases
      case 1
      then obtain b where "c # cs = sub @ b" by (auto simp: prefix_def)
      then have "c # cs = [] @ sub @ b" by simp
      then show ?thesis by blast
    next
      case 2
      with Cons.IH obtain a b where "cs = a @ sub @ b" by blast
      then have "c # cs = (c # a) @ sub @ b" by simp
      then show ?thesis by blast
    qed
  next
    assume "\<exists>a b. c # cs = a @ sub @ b"
    then obtain a b where ab: "c # cs = a @ sub @ b" by blast
    show "includes_str (c # cs) sub"
    proof (cases a)
      case Nil
      with ab have "prefix sub (c # cs)" by (simp add: prefix_def)
      then show ?thesis by simp
    next
      case (Cons d a')
      with ab have "cs = a' @ sub @ b" by simp
      with Cons.IH have "includes_str cs sub" by blast
      then show ?thesis by simp
    qed
  qed
qed

lemma join_contains: "k \<in> set ms \<Longrightarrow> \<exists>a b. join sep ms = a @ k @ b"
proof (induction sep ms rule: join.induct)
  case (1 sep)
  then show ?case by simp
next
  case (2 sep x)
  then have "join sep [x] = [] @ k @ []" by simp
  then show ?case by blast
next
  case (3 sep x y ys)
  show ?case
  proof (cases "k = x")
    case True
    then have "join sep (x # y # ys) = [] @ k @ (sep @ join sep (y # ys))" by simp
    then show ?thesis by blast
  next
    case False
    with "3.prems" have "k \<in> set (y # ys)" by simp
    with "3.IH" obtain a b where "join sep (y # ys) = a @ k @ b" by blast
    then have "join sep (x # y # ys) = (x @ sep @ a) @ k @ b" by simp
    then show ?thesis by blast
  qed
qed

lemma missing_env_message_names:
  assumes "k \<in> set missing"
  shows "includes_str (missing_env_message missing) k"
proof -
  from join_contains [OF assms, of "'', ''"] obtain a b where
    "join '', '' missing = a @ k @ b" by blast
  then have "missing_env_message missing =
      (''Missing required environment variables: '' @ a) @ k @ b"
    by (simp add: missing_env_message_def)
  then show ?thesis
    unfolding includes_str_iff by blast
qed

lemma executeApiTool_env_failure:
  "checkRequiredEnvVars pf (def_requires_env (ep_definition p)) (ep_extraEnv p) = Inl e \<Longrightarrow>
   executeApiTool pf p = (failure e, [])"
  by (simp add: executeApiTool_def executeApiTool_try_def Let_def)

lemma executeApiTool_url_failure:
  assumes "checkRequiredEnvVars pf (def_requires_env (ep_definition p)) (ep_extraEnv p) = Inr ()"
    and "interpolateString (req_url (def_request (ep_definition p))) (call_context pf p) True
           = Inr u"
    and "validateUrl pf u (def_allowed_hosts (ep_definition p)) = Inl e"
  shows "executeApiTool pf p = (failure e, [])"
  using assms by (simp add: executeApiTool_def executeApiTool_try_def Let_def)

lemma checkRequiredEnvVars_missing:
  assumes "k \<in> set reqs" and "falsy_env (js_get (merged_dict pf extra) k)"
  shows "checkRequiredEnvVars pf (Some reqs) extra =
           Inl (missing_env_message (missing_env pf reqs extra))"
proof -
  have "k \<in> set (missing_env pf reqs extra)"
    using assms by (simp add: missing_env_def)
  then have "missing_env pf reqs extra \<noteq> []" and "reqs \<noteq> []"
    using assms(1) by auto
  then show ?thesis
    by (simp add: checkRequiredEnvVars_def Let_def)
qed

lemma isPrivateHost_iff:
  "isPrivateHost h \<longleftrightarrow>
     h = ''169.254.169.254'' \<or> map lower_char h = ''localhost'' \<or> prefix ''127.'' h \<or>
     prefix ''10.'' h \<or> match_172 h \<or> prefix ''192.168.'' h \<or> prefix ''169.254.'' h \<or>
     suffix ''.local'' (map lower_char h) \<or> suffix ''.internal'' (map lower_char h)"
  by (simp add: isPrivateHost_def BLOCKED_HOSTS_def PRIVATE_IP_PATTERNS_def)

lemma calls_shape:
  "snd (executeApiTool pf p) = [] \<or>
   (\<exists>call. snd (executeApiTool pf p) = [call] \<and>
      fetch_timeout call = effective_timeout (def_request (ep_definition p)))"
  by (auto simp: executeApiTool_def executeApiTool_try_def Let_def split: sum.splits prod.splits)

subsection \<open>Private hosts\<close>

text \<open>
  C1. When the required-environment check has passed and the URL template has resolved
  to a URL whose hostname is a private host (the metadata address or one of the private
  patterns, characterised by \<open>isPrivateHost_iff\<close>), the executor returns the failed result
  with the private-host message and calls \<^verbatim>\<open>fetch\<close> not at all, whatever the allow-list
  holds.
\<close>

theorem private_host_blocked:
  assumes "checkRequiredEnvVars pf (def_requires_env (ep_definition p)) (ep_extraEnv p) = Inr ()"
    and "interpolateString (req_url (def_request (ep_definition p))) (call_context pf p) True
           = Inr u"
    and "url_hostname pf u = Some h"
    and "isPrivateHost h"
  shows "executeApiTool pf p = (failure (private_host_message h), [])
         \<and> res_success (fst (executeApiTool pf p)) = False
         \<and> res_error (fst (executeApiTool pf p)) =
             Some (''Blocked: requests to private/internal hosts not allowed ('' @ h @ '')'')"
proof -
  have "validateUrl pf u (def_allowed_hosts (ep_definition p)) = Inl (private_host_message h)"
    using assms(3,4) by (simp add: validateUrl_def)
  from executeApiTool_url_failure [OF assms(1,2) this] show ?thesis
    by (simp add: failure_def private_host_message_def)
qed

theorem private_host_blocked_witness:
  "isPrivateHost ''localhost'' \<and> isAllowedHost ''localhost'' [''localhost'']
   \<and> isPrivateHost ''127.0.0.1'' \<and> isPrivateHost ''10.1.2.3'' \<and> isPrivateHost ''172.16.0.1''
   \<and> isPrivateHost ''172.31.255.1'' \<and> isPrivateHost ''192.168.1.1''
   \<and> isPrivateHost ''169.254.169.254'' \<and> isPrivateHost ''printer.local''
   \<and> isPrivateHost ''db.internal''
   \<and> executeApiTool sample_platform
       (sample_call (sample_definition ''http://localhost:8080/secret'' [''localhost''])) =
       (failure ''Blocked: requests to private/internal hosts not allowed (localhost)'', [])"
proof -
  let ?p = "sample_call (sample_definition ''http://localhost:8080/secret'' [''localhost''])"
  have a: "checkRequiredEnvVars sample_platform (def_requires_env (ep_definition ?p))
      (ep_extraEnv ?p) = Inr ()"
    by (simp add: checkRequiredEnvVars_def sample_call_def sample_definition_def)
  have b: "interpolateString (req_url (def_request (ep_definition ?p)))
      (call_context sample_platform ?p) True = Inr ''http://localhost:8080/secret''"
    by (simp add: sample_call_def sample_definition_def template_eval)
  have c: "url_hostname sample_platform ''http://localhost:8080/secret'' = Some ''localhost''"
    by (simp add: sample_platform_def sample_platform_with_def sample_hostname_def)
  have d: "isPrivateHost ''localhost''"
    by (simp add: isPrivateHost_iff lower_char_def)
  have e: "isAllowedHost ''localhost'' [''localhost'']"
    by (simp add: isAllowedHost_def host_matches_def)
  have more: "isPrivateHost ''127.0.0.1'' \<and> isPrivateHost ''10.1.2.3''
      \<and> isPrivateHost ''172.16.0.1'' \<and> isPrivateHost ''172.31.255.1''
      \<and> isPrivateHost ''192.168.1.1'' \<and> isPrivateHost ''169.254.169.254''
      \<and> isPrivateHost ''printer.local'' \<and> isPrivateHost ''db.internal''"
    by (simp add: isPrivateHost_iff lower_char_def match_172_def suffix_to_prefix)
  show ?thesis
    using private_host_blocked [OF a b c d] d e more by (simp add: private_host_message_def)
qed

subsection \<open>Timeout\<close>

text \<open>
  C7. The effective timeout is the minimum of the declared timeout (30000 when none is
  declared) and 60000, so it never exceeds 60000; every call of \<^verbatim>\<open>fetch\<close> the executor
  makes carries this value as the delay of its abort timer.
\<close>

theorem timeout_clamped:
  "effective_timeout rq = min (case req_timeout_ms rq of None \<Rightarrow> 30000 | Some t \<Rightarrow> t) 60000
   \<and> effective_timeout rq \<le> 60000
   \<and> (\<forall>call \<in> set (snd (executeApiTool pf p)).
         fetch_timeout call = effective_timeout (def_request (ep_definition p))
         \<and> fetch_timeout call \<le> 60000)"
proof -
  have a: "effective_timeout r = min (case req_timeout_ms r of None \<Rightarrow> 30000 | Some t \<Rightarrow> t) 60000"
    for r
    by (simp add: effective_timeout_def DEFAULT_TIMEOUT_MS_def MAX_TIMEOUT_MS_def
          split: option.splits)
  have b: "effective_timeout r \<le> 60000" for r
    unfolding a by simp
  have "\<forall>call \<in> set (snd (executeApiTool pf p)).
         fetch_timeout call = effective_timeout (def_request (ep_definition p))"
    using calls_shape [of pf p] by auto
  with a b show ?thesis by simp
qed

theorem timeout_clamped_witness:
  "req_timeout_ms (def_request (sample_definition ''https://api.example.com/test''
                                  [''api.example.com''])) = Some 120000
   \<and> map fetch_timeout
        (snd (executeApiTool sample_platform
                (sample_call (sample_definition ''https://api.example.com/test''
                                [''api.example.com''])))) = [60000]"
proof -
  let ?p = "sample_call (sample_definition ''https://api.example.com/test'' [''api.example.com''])"
  have calls: "snd (executeApiTool sample_platform ?p) =
      [\<lparr>fetch_url = ''https://api.example.com/test'', fetch_method = ''GET'', fetch_headers = [],
        fetch_body = None, fetch_timeout = effective_timeout (def_request (ep_definition ?p))\<rparr>]"
    by (simp add: executeApiTool_def executeApiTool_try_def checkRequiredEnvVars_def
          call_context_def validateUrl_def sample_platform_def sample_platform_with_def sample_hostname_def
          sample_definition_def sample_call_def isPrivateHost_iff lower_char_def match_172_def
          isAllowedHost_def host_matches_def build_headers_def build_body_def
          parse_response_def sample_response_def build_result_def render_summary_def
          render_error_def optional_template_def suffix_to_prefix template_eval)
  have t: "req_timeout_ms (def_request (ep_definition ?p)) = Some 120000"
    by (simp add: sample_call_def sample_definition_def)
  show ?thesis
    using timeout_clamped [of "def_request (ep_definition ?p)" sample_platform ?p] t
    by (simp add: calls) (simp add: sample_call_def sample_definition_def)
qed

lemma host_matches_wildcard:
  "host_matches h (''*.'' @ d) \<longleftrightarrow> h = d \<or> (\<exists>x. h = x @ ''.'' @ d)"
  by (auto simp: host_matches_def suffix_def)

lemma host_matches_exact: "\<not> prefix ''*.'' a \<Longrightarrow> host_matches h a \<longleftrightarrow> h = a"
  by (simp add: host_matches_def)

lemma isAllowedHost_iff: "isAllowedHost h allowed \<longleftrightarrow> (\<exists>a \<in> set allowed. host_matches h a)"
  by (simp add: isAllowedHost_def list_ex_iff)

subsection \<open>The allow-list\<close>

text \<open>
  C2, as stated, fails: the hostname \<^verbatim>\<open>localhost\<close> matches no entry of the allow-list
  \<^verbatim>\<open>["api.example.com"]\<close>, yet the executor fails with the private-host message, which
  is not the message for a host that is not allow-listed and does not mention the
  allow-list.
\<close>

theorem unlisted_private_host_counterexample:
  "url_hostname sample_platform ''http://localhost:8080/secret'' = Some ''localhost''
   \<and> \<not> isAllowedHost ''localhost'' [''api.example.com'']
   \<and> executeApiTool sample_platform
       (sample_call (sample_definition ''http://localhost:8080/secret'' [''api.example.com''])) =
       (failure ''Blocked: requests to private/internal hosts not allowed (localhost)'', [])
   \<and> ''Blocked: requests to private/internal hosts not allowed (localhost)''
       \<noteq> not_allowed_message ''localhost'' [''api.example.com'']
   \<and> \<not> includes_str ''Blocked: requests to private/internal hosts not allowed (localhost)''
         ''allowed_hosts''"
proof -
  have a: "url_hostname sample_platform ''http://localhost:8080/secret'' = Some ''localhost''"
    by (simp add: sample_platform_def sample_platform_with_def sample_hostname_def)
  have b: "\<not> isAllowedHost ''localhost'' [''api.example.com'']"
    by (simp add: isAllowedHost_def host_matches_def)
  have c: "executeApiTool sample_platform
       (sample_call (sample_definition ''http://localhost:8080/secret'' [''api.example.com''])) =
       (failure ''Blocked: requests to private/internal hosts not allowed (localhost)'', [])"
    by (simp add: executeApiTool_def executeApiTool_try_def checkRequiredEnvVars_def
          call_context_def validateUrl_def sample_platform_def sample_platform_with_def sample_hostname_def
          sample_definition_def sample_call_def isPrivateHost_iff lower_char_def
          private_host_message_def template_eval)
  have d: "''Blocked: requests to private/internal hosts not allowed (localhost)''
       \<noteq> not_allowed_message ''localhost'' [''api.example.com'']"
    by (simp add: not_allowed_message_def)
  have e: "\<not> includes_str ''Blocked: requests to private/internal hosts not allowed (localhost)''
         ''allowed_hosts''"
    by simp
  from a b c d e show ?thesis by blast
qed

text \<open>
  C2, amended. A wildcard entry \<^verbatim>\<open>*.d\<close> is matched exactly by \<open>d\<close> itself and by the
  hostnames that end in a dot followed by \<open>d\<close>; an entry that does not start with
  \<^verbatim>\<open>*.\<close> is matched only by the identical hostname; a hostname is allowed iff it
  matches some entry. When URL validation is reached with a hostname that is not a
  private host and is not allowed, the executor returns the failed result with the
  not-in-allowed-hosts message and calls \<^verbatim>\<open>fetch\<close> not at all.
\<close>

theorem allow_list_matching:
  "(host_matches h (''*.'' @ d) \<longleftrightarrow> h = d \<or> (\<exists>x. h = x @ ''.'' @ d))
   \<and> (\<not> prefix ''*.'' a \<longrightarrow> (host_matches h a \<longleftrightarrow> h = a))
   \<and> (isAllowedHost h allowed \<longleftrightarrow> (\<exists>a \<in> set allowed. host_matches h a))
   \<and> (checkRequiredEnvVars pf (def_requires_env (ep_definition p)) (ep_extraEnv p) = Inr ()
        \<and> interpolateString (req_url (def_request (ep_definition p))) (call_context pf p) True
             = Inr u
        \<and> url_hostname pf u = Some h
        \<and> \<not> isPrivateHost h
        \<and> \<not> isAllowedHost h (def_allowed_hosts (ep_definition p))
      \<longrightarrow> executeApiTool pf p =
            (failure (''Blocked: host '' @ [CHR 0x27] @ h @ [CHR 0x27] @ '' not in allowed_hosts [''
                        @ join '', '' (def_allowed_hosts (ep_definition p)) @ '']''), []))"
proof -
  have "executeApiTool pf p =
      (failure (not_allowed_message h (def_allowed_hosts (ep_definition p))), [])"
    if a: "checkRequiredEnvVars pf (def_requires_env (ep_definition p)) (ep_extraEnv p) = Inr ()"
      and b: "interpolateString (req_url (def_request (ep_definition p))) (call_context pf p) True
             = Inr u"
      and c: "url_hostname pf u = Some h"
      and d: "\<not> isPrivateHost h"
      and e: "\<not> isAllowedHost h (def_allowed_hosts (ep_definition p))"
  proof -
    have "validateUrl pf u (def_allowed_hosts (ep_definition p)) =
        Inl (not_allowed_message h (def_allowed_hosts (ep_definition p)))"
      using c d e by (simp add: validateUrl_def)
    from executeApiTool_url_failure [OF a b this] show ?thesis .
  qed
  then show ?thesis
    using host_matches_wildcard [of h d] host_matches_exact [of a h] isAllowedHost_iff [of h allowed]
    by (simp add: not_allowed_message_def)
qed

theorem allow_list_matching_witness:
  "host_matches ''example.com'' ''*.example.com''
   \<and> host_matches ''api.example.com'' ''*.example.com''
   \<and> \<not> host_matches ''evilexample.com'' ''*.example.com''
   \<and> \<not> host_matches ''evil.com'' ''api.example.com''
   \<and> \<not> isPrivateHost ''evil.com''
   \<and> executeApiTool sample_platform
       (sample_call (sample_definition ''https://evil.com/steal'' [''api.example.com''])) =
       (failure (''Blocked: host '' @ [CHR 0x27] @ ''evil.com'' @ [CHR 0x27]
                   @ '' not in allowed_hosts [api.example.com]''), [])"
proof -
  let ?p = "sample_call (sample_definition ''https://evil.com/steal'' [''api.example.com''])"
  have a: "checkRequiredEnvVars sample_platform (def_requires_env (ep_definition ?p))
      (ep_extraEnv ?p) = Inr ()"
    by (simp add: checkRequiredEnvVars_def sample_call_def sample_definition_def)
  have b: "interpolateString (req_url (def_request (ep_definition ?p)))
      (call_context sample_platform ?p) True = Inr ''https://evil.com/steal''"
    by (simp add: sample_call_def sample_definition_def template_eval)
  have c: "url_hostname sample_platform ''https://evil.com/steal'' = Some ''evil.com''"
    by (simp add: sample_platform_def sample_platform_with_def sample_hostname_def)
  have d: "\<not> isPrivateHost ''evil.com''"
    by (simp add: isPrivateHost_iff lower_char_def match_172_def suffix_to_prefix)
  have np: "\<not> prefix ''*.'' ''api.example.com''" by simp
  have e: "\<not> isAllowedHost ''evil.com'' (def_allowed_hosts (ep_definition ?p))"
    by (simp add: isAllowedHost_def host_matches_def sample_call_def sample_definition_def)
  have f: "def_allowed_hosts (ep_definition ?p) = [''api.example.com'']"
    by (simp add: sample_call_def sample_definition_def)
  have w1: "host_matches ''example.com'' ''*.example.com''"
    using allow_list_matching [of "''example.com''" "''example.com''"] by simp
  have w2: "host_matches ''api.example.com'' ''*.example.com''"
    by (simp add: host_matches_def suffix_to_prefix)
  have w3: "\<not> host_matches ''evilexample.com'' ''*.example.com''"
    by (simp add: host_matches_def suffix_to_prefix)
  have w4: "\<not> host_matches ''evil.com'' ''api.example.com''"
    using allow_list_matching [of "''evil.com''" _ "''api.example.com''"] np by blast
  have w5: "executeApiTool sample_platform ?p =
       (failure (''Blocked: host '' @ [CHR 0x27] @ ''evil.com'' @ [CHR 0x27]
                   @ '' not in allowed_hosts [api.example.com]''), [])"
    using allow_list_matching [of "''evil.com''" _ _ _ sample_platform ?p "''https://evil.com/steal''"]
      a b c d e
    by (simp add: f)
  from w1 w2 w3 w4 d w5 show ?thesis by blast
qed

subsection \<open>A variable set to the empty string\<close>

text \<open>
  C10. A required variable that the merged environment sets to the empty string counts
  as missing: the executor returns the missing-variables failure naming it and calls
  \<^verbatim>\<open>fetch\<close> not at all. Strict interpolation in the same context treats the variable
  as present: its placeholder contributes the empty string and no error.
\<close>

theorem empty_env_value_disagreement:
  assumes "def_requires_env (ep_definition p) = Some reqs"
    and "k \<in> set reqs"
    and "merged_env pf (ep_extraEnv p) k = Some []"
  shows "executeApiTool pf p =
           (failure (''Missing required environment variables: ''
                       @ join '', '' (missing_env pf reqs (ep_extraEnv p))), [])
         \<and> k \<in> set (missing_env pf reqs (ep_extraEnv p))
         \<and> includes_str (''Missing required environment variables: ''
                           @ join '', '' (missing_env pf reqs (ep_extraEnv p))) k
         \<and> (valid_key k \<longrightarrow>
              interpolateString (pre @ placeholder ''env'' k @ post) (call_context pf p) True =
                then_append (interpolateString pre (call_context pf p) True)
                  (interpolateString post (call_context pf p) True))"
proof -
  let ?missing = "missing_env pf reqs (ep_extraEnv p)"
  have fs: "falsy_env (js_get (merged_dict pf (ep_extraEnv p)) k)"
    using assms(3) by (simp add: falsy_env_def js_get_def merged_dict_def slots_of_def)
  from checkRequiredEnvVars_missing [OF assms(2) this]
  have a: "executeApiTool pf p = (failure (missing_env_message ?missing), [])"
    using assms(1) by (simp add: executeApiTool_env_failure)
  have b: "k \<in> set ?missing"
    using assms(2) fs by (simp add: missing_env_def)
  have c: "includes_str (missing_env_message ?missing) k"
    using b by (rule missing_env_message_names)
  have r: "replacer (call_context pf p) True (placeholder ''env'' k) ''env'' k = Inr []"
    using assms(3)
    by (simp add: replacer_def call_context_def js_get_def merged_dict_def slots_of_def)
  have ks: "known_scope ''env''" by (simp add: known_scope_def)
  have d: "valid_key k \<longrightarrow>
              interpolateString (pre @ placeholder ''env'' k @ post) (call_context pf p) True =
                then_append (interpolateString pre (call_context pf p) True)
                  (interpolateString post (call_context pf p) True)"
    using interpolate_around_placeholder [OF ks, of k pre post "call_context pf p" True]
    by (simp add: r)
  from a b c d show ?thesis
    by (simp add: missing_env_message_def)
qed

theorem empty_env_value_disagreement_witness:
  "merged_env sample_platform None ''EMPTY_VAR'' = Some [] \<and> valid_key ''EMPTY_VAR''
   \<and> executeApiTool sample_platform
       (sample_call ((sample_definition ''https://api.example.com/{{env.EMPTY_VAR}}''
                        [''api.example.com''])
          \<lparr>def_requires_env := Some [''EMPTY_VAR'']\<rparr>)) =
       (failure ''Missing required environment variables: EMPTY_VAR'', [])
   \<and> interpolateString ''https://api.example.com/{{env.EMPTY_VAR}}''
        (call_context sample_platform
           (sample_call ((sample_definition ''https://api.example.com/{{env.EMPTY_VAR}}''
                            [''api.example.com''])
              \<lparr>def_requires_env := Some [''EMPTY_VAR'']\<rparr>))) True =
       Inr ''https://api.example.com/''"
proof -
  let ?p = "sample_call ((sample_definition ''https://api.example.com/{{env.EMPTY_VAR}}''
                        [''api.example.com''])
          \<lparr>def_requires_env := Some [''EMPTY_VAR'']\<rparr>)"
  have a: "def_requires_env (ep_definition ?p) = Some [''EMPTY_VAR'']"
    by (simp add: sample_call_def)
  have b: "''EMPTY_VAR'' \<in> set [''EMPTY_VAR'']" by simp
  have e: "ep_extraEnv ?p = None" by (simp add: sample_call_def)
  have c: "merged_env sample_platform (ep_extraEnv ?p) ''EMPTY_VAR'' = Some []"
    by (simp add: e merged_env_def sample_platform_def sample_platform_with_def)
  have m: "missing_env sample_platform [''EMPTY_VAR''] None = [''EMPTY_VAR'']"
    by (simp add: missing_env_def merged_env_def sample_platform_def sample_platform_with_def
          falsy_env_def js_get_def merged_dict_def slots_of_def)
  have vk: "valid_key ''EMPTY_VAR''"
    by (simp add: valid_key_def is_key_start_def is_key_char_def)
  have pre: "interpolateString ''https://api.example.com/'' (call_context sample_platform ?p) True
      = Inr ''https://api.example.com/''"
    by (simp add: template_eval)
  have post: "interpolateString [] (call_context sample_platform ?p) True = Inr []"
    by (simp add: interpolateString_def)
  show ?thesis
    using empty_env_value_disagreement [OF a b c, of "''https://api.example.com/''" "[]"] c vk
    by (simp add: e m pre post placeholder_def)
qed

subsection \<open>A required name that the merged object inherits\<close>

text \<open>
  Claim C3. A required name that is absent from the merged environment fails the call
  with the message listing the missing names, and no request is issued. The check reads
  \<^verbatim>\<open>merged[key]\<close> and tests its truth value, and the read also finds what the merged
  object inherits. On the sample platform \<^verbatim>\<open>toString\<close> is no variable of the merged
  environment, yet the definition that requires it passes the check: the request is
  sent and the call succeeds.
\<close>

theorem required_inherited_name_passes:
  "merged_env sample_platform None ''toString'' = None
   \<and> executeApiTool sample_platform
        (sample_call ((sample_definition ''https://api.example.com/test'' [''api.example.com''])
                        \<lparr>def_requires_env := Some [''toString'']\<rparr>))
       = (\<lparr>res_success = True, res_data = Some (JObj [(''id'', JNum ''7'')]),
           res_status = Some 200, res_error = None, res_summary = None\<rparr>,
          [\<lparr>fetch_url = ''https://api.example.com/test'', fetch_method = ''GET'',
            fetch_headers = [], fetch_body = None, fetch_timeout = 60000\<rparr>])"
  by code_simp

subsection \<open>A summary that cannot be rendered\<close>

text \<open>
  Claim C4. Once the exchange has completed, the result carries the status and the
  parsed data, and its success field tells whether the status is 2xx. The summary is
  rendered after the result object is built, inside the same \<^verbatim>\<open>try\<close> block, and
  \<^verbatim>\<open>String(value)\<close> throws on a payload value with an own property \<^verbatim>\<open>toString\<close>. The
  server answers with status 200 and the payload \<^verbatim>\<open>{"a": {"toString": 1}}\<close>, which is
  parsed; the summary template names \<^verbatim>\<open>response.a\<close>; the result is the one of the
  \<^verbatim>\<open>catch\<close> block: no success, no status and no data, after one call of \<^verbatim>\<open>fetch\<close>.
\<close>

theorem throwing_summary_drops_status:
  "http_status shadowing_response = 200
   \<and> parse_response shadowing_response = Inr (JObj [(''a'', JObj [(''toString'', JNum ''1'')])])
   \<and> executeApiTool (sample_platform_with shadowing_response)
        (sample_call ((sample_definition ''https://api.example.com/test'' [''api.example.com''])
                        \<lparr>def_response :=
                           Some \<lparr>resp_extract = None, resp_summary = Some ''got {{response.a}}'',
                                 resp_error_template = None\<rparr>\<rparr>))
       = (\<lparr>res_success = False, res_data = None, res_status = None,
           res_error = Some ''Cannot convert object to primitive value'', res_summary = None\<rparr>,
          [\<lparr>fetch_url = ''https://api.example.com/test'', fetch_method = ''GET'',
            fetch_headers = [], fetch_body = None, fetch_timeout = 60000\<rparr>])"
  by code_simp

section \<open>Properties of the loader\<close>

lemma validate_parameters_iff:
  "(\<exists>u. validate_parameters filename kvs = Inr u)
     \<longleftrightarrow> list_all (\<lambda>(key, param). spec_parameter_ok param) kvs"
proof (induction kvs)
  case Nil
  show ?case by simp
next
  case (Cons kv kvs)
  obtain key param where kv: "kv = (key, param)" by (cases kv) auto
  have "includes_value [''string'', ''number'', ''boolean'', ''integer''] (get_prop param ''type'')
      \<longleftrightarrow> (case get_prop param ''type'' of
            Some (JStr t) \<Rightarrow> t \<in> set [''string'', ''number'', ''boolean'', ''integer'']
          | _ \<Rightarrow> False)"
    by (simp add: includes_value_def)
  with Cons.IH show ?case
    by (auto simp: kv spec_parameter_ok_def)
qed

lemma validateDefinition_result:
  "validateDefinition d filename = Inr d' \<Longrightarrow> d' = d"
  by (auto simp: validateDefinition_def split: if_splits option.splits sum.splits)

lemma is_string_iff: "is_string v \<longleftrightarrow> (case v of Some (JStr s) \<Rightarrow> True | _ \<Rightarrow> False)"
  by (simp add: is_string_def)

lemma validateDefinition_accepts:
  assumes "spec_valid_definition d"
  shows "validateDefinition d filename = Inr d"
proof -
  from assms have obj: "is_object d"
    and nm: "case get_prop d ''name'' of Some (JStr n) \<Rightarrow> TOOL_NAME_PATTERN n | _ \<Rightarrow> False"
    and ds: "case get_prop d ''description'' of Some (JStr s) \<Rightarrow> True | _ \<Rightarrow> False"
    and rq: "case get_prop d ''request'' of Some req \<Rightarrow> spec_request_ok req | None \<Rightarrow> False"
    and ah: "case get_prop d ''allowed_hosts'' of Some (JArr hosts) \<Rightarrow> hosts \<noteq> [] | _ \<Rightarrow> False"
    and ps: "case get_prop d ''parameters'' of
          None \<Rightarrow> True
        | Some ps \<Rightarrow> is_object ps \<and> list_all (\<lambda>(key, param). spec_parameter_ok param)
                                          (object_entries ps)"
    by (simp_all add: spec_valid_definition_def)
  from nm obtain n where n: "get_prop d ''name'' = Some (JStr n)" "TOOL_NAME_PATTERN n"
    by (auto split: option.splits jsvalue.splits)
  from ds obtain s where s: "get_prop d ''description'' = Some (JStr s)"
    by (auto split: option.splits jsvalue.splits)
  from rq obtain req where req: "get_prop d ''request'' = Some req" "spec_request_ok req"
    by (auto split: option.splits)
  from req(2) have ro: "is_object req"
    and m: "includes_value [''GET'', ''POST'', ''PUT'', ''PATCH'', ''DELETE''] (get_prop req ''method'')"
    and u: "is_string (get_prop req ''url'')"
    by (auto simp: spec_request_ok_def includes_value_def is_string_def
          split: option.splits jsvalue.splits)
  from ah obtain hosts where hosts: "get_prop d ''allowed_hosts'' = Some (JArr hosts)" "hosts \<noteq> []"
    by (auto split: option.splits jsvalue.splits)
  show ?thesis
  proof (cases "get_prop d ''parameters''")
    case None
    with obj n s req ro m u hosts show ?thesis
      by (simp add: validateDefinition_def is_string_def)
  next
    case (Some pv)
    with ps have po: "is_object pv"
      and "list_all (\<lambda>(key, param). spec_parameter_ok param) (object_entries pv)"
      by simp_all
    then obtain u' where "validate_parameters filename (object_entries pv) = Inr u'"
      using validate_parameters_iff by blast
    with Some po obj n s req ro m u hosts show ?thesis
      by (simp add: validateDefinition_def is_string_def)
  qed
qed

lemma validateDefinition_sound:
  assumes "validateDefinition d filename = Inr d'"
  shows "spec_valid_definition d"
proof -
  from assms have obj: "is_object d"
    by (auto simp: validateDefinition_def split: if_splits)
  from assms have nm: "is_string (get_prop d ''name'')"
      "TOOL_NAME_PATTERN (case get_prop d ''name'' of Some (JStr n) \<Rightarrow> n | _ \<Rightarrow> [])"
    by (auto simp: validateDefinition_def split: if_splits)
  from assms have ds: "is_string (get_prop d ''description'')"
    by (auto simp: validateDefinition_def split: if_splits)
  from assms obj nm ds obtain req where req: "get_prop d ''request'' = Some req"
    by (auto simp: validateDefinition_def split: if_splits option.splits)
  from assms obj nm ds req have ro: "is_object req"
    and m: "includes_value [''GET'', ''POST'', ''PUT'', ''PATCH'', ''DELETE''] (get_prop req ''method'')"
    and u: "is_string (get_prop req ''url'')"
    and ah: "\<not> (case get_prop d ''allowed_hosts'' of
                Some (JArr hosts) \<Rightarrow> length hosts = 0 | _ \<Rightarrow> True)"
    by (auto simp: validateDefinition_def split: if_splits)
  from assms obj nm ds req ro m u ah have ps:
    "case get_prop d ''parameters'' of
       None \<Rightarrow> True
     | Some pv \<Rightarrow> is_object pv \<and> (\<exists>u. validate_parameters filename (object_entries pv) = Inr u)"
    by (auto simp: validateDefinition_def split: if_splits option.splits sum.splits)
  have 1: "case get_prop d ''name'' of Some (JStr n) \<Rightarrow> TOOL_NAME_PATTERN n | _ \<Rightarrow> False"
    using nm by (auto simp: is_string_def split: option.splits jsvalue.splits)
  have 2: "case get_prop d ''description'' of Some (JStr s) \<Rightarrow> True | _ \<Rightarrow> False"
    using ds by (simp add: is_string_def)
  have 3: "spec_request_ok req"
    using ro m u
    by (auto simp: spec_request_ok_def includes_value_def is_string_def
          split: option.splits jsvalue.splits)
  have 4: "case get_prop d ''allowed_hosts'' of Some (JArr hosts) \<Rightarrow> hosts \<noteq> [] | _ \<Rightarrow> False"
    using ah by (auto split: option.splits jsvalue.splits)
  have 5: "case get_prop d ''parameters'' of
          None \<Rightarrow> True
        | Some ps \<Rightarrow> is_object ps \<and> list_all (\<lambda>(key, param). spec_parameter_ok param)
                                          (object_entries ps)"
    using ps validate_parameters_iff by (auto split: option.splits)
  from obj 1 2 3 4 5 req show ?thesis
    by (simp add: spec_valid_definition_def)
qed

lemma validateDefinition_iff:
  "validateDefinition d filename = Inr d' \<longleftrightarrow> d' = d \<and> spec_valid_definition d"
  using validateDefinition_result validateDefinition_sound validateDefinition_accepts by blast

lemma load_file_iff:
  "load_file fs dir file = Inr d \<longleftrightarrow>
     (\<exists>content. fs_readFile fs (fs_join fs dir file) = Inr content
        \<and> fs_parseYaml fs content = Inr d \<and> spec_valid_definition d)"
  by (auto simp: load_file_def validateDefinition_iff split: sum.splits)

lemma load_files_acc:
  "load_files fs dir files definitions warnings =
     (definitions @ concat (map (\<lambda>file. case load_file fs dir file of Inr d \<Rightarrow> [d] | Inl w \<Rightarrow> [])
                             (filter is_yaml_file files)),
      warnings @ concat (map (\<lambda>file. case load_file fs dir file of Inr d \<Rightarrow> [] | Inl w \<Rightarrow> [w])
                          (filter is_yaml_file files)))"
  by (induction files arbitrary: definitions warnings) (auto split: sum.splits)

text \<open>
  C8. When the \<^verbatim>\<open>api-tools\<close> subdirectory does not exist the loader returns no
  definitions and writes no warning. When it exists and is listed, the definitions
  returned are, in the order of the listing, those of the YAML files whose
  \<^verbatim>\<open>try\<close> block ends in a definition, and the warnings are those of the other YAML
  files, so every YAML file contributes either its definition or one warning,
  whatever its siblings do. A file ends in the definition \<open>d\<close> exactly when it is read,
  parses to \<open>d\<close>, and \<open>d\<close> meets every structural rule of the specification; in every
  other case it ends in a warning.
\<close>

theorem loader_returns_valid_definitions:
  "(\<not> fs_exists fs (fs_join fs agentDir ''api-tools'') \<longrightarrow>
      loadToolDefinitions fs agentDir = ([], []))
   \<and> (fs_exists fs (fs_join fs agentDir ''api-tools'')
        \<and> fs_readdir fs (fs_join fs agentDir ''api-tools'') = Inr files \<longrightarrow>
        fst (loadToolDefinitions fs agentDir) =
          concat (map (\<lambda>file. case load_file fs (fs_join fs agentDir ''api-tools'') file of
                                Inr d \<Rightarrow> [d] | Inl w \<Rightarrow> [])
                      (filter is_yaml_file files))
        \<and> snd (loadToolDefinitions fs agentDir) =
          concat (map (\<lambda>file. case load_file fs (fs_join fs agentDir ''api-tools'') file of
                                Inr d \<Rightarrow> [] | Inl w \<Rightarrow> [w])
                      (filter is_yaml_file files))
        \<and> (\<forall>file \<in> set files. is_yaml_file file \<longrightarrow>
              (case load_file fs (fs_join fs agentDir ''api-tools'') file of
                 Inr d \<Rightarrow> d \<in> set (fst (loadToolDefinitions fs agentDir))
               | Inl w \<Rightarrow> w \<in> set (snd (loadToolDefinitions fs agentDir)))))
   \<and> (load_file fs dir fname = Inr d \<longleftrightarrow>
        (\<exists>content. fs_readFile fs (fs_join fs dir fname) = Inr content
           \<and> fs_parseYaml fs content = Inr d \<and> spec_valid_definition d))
   \<and> (\<exists>w. load_file fs dir fname = Inl w) = (\<not> (\<exists>d. load_file fs dir fname = Inr d))"
proof -
  let ?dir = "fs_join fs agentDir ''api-tools''"
  let ?defs = "concat (map (\<lambda>file. case load_file fs ?dir file of Inr d \<Rightarrow> [d] | Inl w \<Rightarrow> [])
                      (filter is_yaml_file files))"
  let ?warns = "concat (map (\<lambda>file. case load_file fs ?dir file of Inr d \<Rightarrow> [] | Inl w \<Rightarrow> [w])
                      (filter is_yaml_file files))"
  have a: "\<not> fs_exists fs ?dir \<longrightarrow> loadToolDefinitions fs agentDir = ([], [])"
    by (simp add: loadToolDefinitions_def Let_def)
  have b: "loadToolDefinitions fs agentDir = (?defs, ?warns)"
    if "fs_exists fs ?dir" and "fs_readdir fs ?dir = Inr files"
    using that by (simp add: loadToolDefinitions_def load_files_acc Let_def)
  have c: "case load_file fs ?dir f of Inr d \<Rightarrow> d \<in> set ?defs | Inl w \<Rightarrow> w \<in> set ?warns"
    if "f \<in> set files" and "is_yaml_file f" for f
    using that by (cases "load_file fs ?dir f") auto
  have d: "(\<exists>w. load_file fs dir fname = Inl w) = (\<not> (\<exists>d. load_file fs dir fname = Inr d))"
    by (cases "load_file fs dir fname") auto
  have m: "fst (loadToolDefinitions fs agentDir) = ?defs
        \<and> snd (loadToolDefinitions fs agentDir) = ?warns
        \<and> (\<forall>f \<in> set files. is_yaml_file f \<longrightarrow>
              (case load_file fs ?dir f of
                 Inr d \<Rightarrow> d \<in> set (fst (loadToolDefinitions fs agentDir))
               | Inl w \<Rightarrow> w \<in> set (snd (loadToolDefinitions fs agentDir))))"
    if h: "fs_exists fs ?dir \<and> fs_readdir fs ?dir = Inr files"
  proof -
    from h b have eq: "loadToolDefinitions fs agentDir = (?defs, ?warns)" by blast
    show ?thesis
      unfolding eq fst_conv snd_conv using c by blast
  qed
  from a m d load_file_iff [of fs dir fname d] show ?thesis
    by blast
qed

theorem loader_returns_valid_definitions_witness:
  "\<not> fs_exists sample_fs (fs_join sample_fs ''/other'' ''api-tools'')
   \<and> loadToolDefinitions sample_fs ''/other'' = ([], [])
   \<and> fs_exists sample_fs (fs_join sample_fs ''/agent'' ''api-tools'')
   \<and> fs_readdir sample_fs (fs_join sample_fs ''/agent'' ''api-tools'') =
       Inr [''bad.yaml'', ''good.yaml'', ''notes.txt'', ''broken.yml'']
   \<and> spec_valid_definition good_definition
   \<and> \<not> spec_valid_definition nameless_definition
   \<and> loadToolDefinitions sample_fs ''/agent'' =
       ([good_definition],
        [''api-tools: bad.yaml has invalid name (must match /^[a-z][a-z0-9_]*$/)'',
         ''api-tools: failed to parse broken.yml: unexpected token''])"
proof -
  let ?files = "[''bad.yaml'', ''good.yaml'', ''notes.txt'', ''broken.yml'']"
  have a: "\<not> fs_exists sample_fs (fs_join sample_fs ''/other'' ''api-tools'')"
    by (simp add: sample_fs_def)
  have b: "fs_exists sample_fs (fs_join sample_fs ''/agent'' ''api-tools'')"
    by (simp add: sample_fs_def)
  have c: "fs_readdir sample_fs (fs_join sample_fs ''/agent'' ''api-tools'') = Inr ?files"
    by (simp add: sample_fs_def)
  have j: "fs_join sample_fs ''/agent'' ''api-tools'' = ''/agent/api-tools''"
    by (simp add: sample_fs_def)
  have g: "spec_valid_definition good_definition"
    by (simp add: spec_valid_definition_def spec_request_ok_def spec_parameter_ok_def
          good_definition_def is_object_def get_prop_def TOOL_NAME_PATTERN_def object_entries_def)
  have n: "\<not> spec_valid_definition nameless_definition"
    by (simp add: spec_valid_definition_def nameless_definition_def get_prop_def)
  have l1: "load_file sample_fs ''/agent/api-tools'' ''good.yaml'' = Inr good_definition"
    using loader_returns_valid_definitions
      [of sample_fs _ _ "''/agent/api-tools''" "''good.yaml''" good_definition] g
    by (simp add: sample_fs_def)
  have l2: "load_file sample_fs ''/agent/api-tools'' ''bad.yaml'' =
      Inl ''api-tools: bad.yaml has invalid name (must match /^[a-z][a-z0-9_]*$/)''"
    by (simp add: load_file_def validateDefinition_def sample_fs_def nameless_definition_def
          is_object_def get_prop_def is_string_def)
  have l3: "load_file sample_fs ''/agent/api-tools'' ''broken.yml'' =
      Inl ''api-tools: failed to parse broken.yml: unexpected token''"
    by (simp add: load_file_def sample_fs_def)
  have y: "is_yaml_file ''bad.yaml''" "is_yaml_file ''good.yaml''"
    "\<not> is_yaml_file ''notes.txt''" "is_yaml_file ''broken.yml''"
    by (simp_all add: is_yaml_file_def suffix_to_prefix)
  have w1: "loadToolDefinitions sample_fs ''/other'' = ([], [])"
    using loader_returns_valid_definitions [of sample_fs "''/other''"] a by blast
  have "fst (loadToolDefinitions sample_fs ''/agent'') = [good_definition]
      \<and> snd (loadToolDefinitions sample_fs ''/agent'') =
        [''api-tools: bad.yaml has invalid name (must match /^[a-z][a-z0-9_]*$/)'',
         ''api-tools: failed to parse broken.yml: unexpected token'']"
    using loader_returns_valid_definitions [of sample_fs "''/agent''" ?files] b c
    by (simp add: j y l1 l2 l3)
  then have w2: "loadToolDefinitions sample_fs ''/agent'' =
       ([good_definition],
        [''api-tools: bad.yaml has invalid name (must match /^[a-z][a-z0-9_]*$/)'',
         ''api-tools: failed to parse broken.yml: unexpected token''])"
    by (cases "loadToolDefinitions sample_fs ''/agent''") simp
  from a w1 b c g n w2 show ?thesis by blast
qed

section \<open>Properties of the schema builder\<close>

text \<open>
  Claim C9. Every parameter declared required is a required field of the schema and
  every other parameter an optional one. The builder stores each schema with the
  assignment \<^verbatim>\<open>properties[name] = schema\<close>, and for the name \<^verbatim>\<open>__proto__\<close> that
  assignment replaces the prototype of \<^verbatim>\<open>properties\<close> instead of adding a property.
  Of the two required parameters \<^verbatim>\<open>__proto__\<close> and \<^verbatim>\<open>q\<close> only \<^verbatim>\<open>q\<close> becomes a property
  and a required field; the other is neither required nor optional in the schema.
\<close>

theorem proto_parameter_lost:
  "buildParameterSchema (Some proto_parameters)
     = TObject (Some (TString None)) [(''q'', TString None)]
   \<and> schema_required (buildParameterSchema (Some proto_parameters)) = [''q'']
   \<and> map_of (schema_properties (buildParameterSchema (Some proto_parameters))) ''__proto__''
       = None"
  by code_simp

end
